theory Spec2Isabelle
  imports Main "HOL-Library.AList" "HOL-Library.Char_ord" "HOL-Library.List_Lexorder"
begin

section \<open>Exceptions\<close>

text \<open>
  Every exception of the Python source that a claim depends on is a value. A function
  that can raise returns \<open>py_error + 'a\<close>, with \<open>Inl\<close> for the raised exception.
\<close>

datatype py_error =
    KeyError
  | IndexError
  | TypeError
  | AttributeError
  | ApiException int
  | FailToCreateError "string list"
  | OtherError string

section \<open>Module-level configuration of job_manager.py\<close>

text \<open>
  The constants read with \<^verbatim>\<open>os.getenv\<close> at import time. A constant without a default
  is \<open>None\<close> when the variable is unset.
\<close>

record config =
  LOCAL_VOLUME_PATH :: "string option"
  LOCAL_VOLUME_PVC_NAME :: "string option"
  S3_BUCKET_NAME :: "string option"
  S3_ENDPOINT :: "string option"
  S3_REGION :: "string option"
  S3_DIR :: string
  S3_CACHE_DIR :: string
  KUBE_NAMESPACE :: string
  KUBE_DEFAULT_NAME_PREFIX :: string
  KUBE_REGCRED_SECRET_NAME :: string
  KUBE_S3_SECRET_NAME :: string
  IS_RASA_FOR_BOTFRONT :: "string option"

text \<open>The values the constants take when no variable is set.\<close>

definition default_config :: config where
  "default_config =
     \<lparr> LOCAL_VOLUME_PATH = None, LOCAL_VOLUME_PVC_NAME = None, S3_BUCKET_NAME = None,
       S3_ENDPOINT = None, S3_REGION = None, S3_DIR = ''models'',
       S3_CACHE_DIR = ''models-cache'', KUBE_NAMESPACE = ''external-training'',
       KUBE_DEFAULT_NAME_PREFIX = ''et'', KUBE_REGCRED_SECRET_NAME = ''bet-regcred'',
       KUBE_S3_SECRET_NAME = ''bet-s3-secret'', IS_RASA_FOR_BOTFRONT = None \<rparr>"

text \<open>Python truthiness of an optional string and of an optional integer.\<close>

definition truthy_str :: "string option \<Rightarrow> bool" where
  "truthy_str x = (case x of None \<Rightarrow> False | Some s \<Rightarrow> s \<noteq> [])"

definition truthy_int :: "int option \<Rightarrow> bool" where
  "truthy_int x = (case x of None \<Rightarrow> False | Some n \<Rightarrow> n \<noteq> 0)"

section \<open>The orchestrator as seen through its API\<close>

text \<open>
  The orchestrator is outside the repository. The manager sees it through three calls:
  reading a Job by name, deleting a Job by name and creating an object. The store of Job
  objects is a map from names; \<open>read_fault\<close> and \<open>delete_fault\<close> are the HTTP status of
  an API failure that the next call of that kind answers with, when there is one (a
  \<open>delete_fault\<close> of 404 while the Job is stored is the race in which the Job vanished
  between the read and the delete). \<open>delete_requests\<close> records every delete that
  reached the orchestrator, with its propagation policy. Every call is made in the one
  namespace \<open>KUBE_NAMESPACE\<close>, which the calls of the model leave out. The counters of a
  Job are optional integers, as the client library declares them.
\<close>

record V1JobStatus =
  active :: "int option"
  succeeded :: "int option"
  failed :: "int option"

record V1Job =
  job_status :: V1JobStatus
  job_labels :: "(string \<times> string) list"

record cluster =
  jobs :: "string \<rightharpoonup> V1Job"
  read_fault :: "int option"
  delete_fault :: "int option"
  delete_requests :: "(string \<times> string) list"

definition read_namespaced_job :: "cluster \<Rightarrow> string \<Rightarrow> py_error + V1Job" where
  "read_namespaced_job c name =
     (case read_fault c of
        Some s \<Rightarrow> Inl (ApiException s)
      | None \<Rightarrow> (case jobs c name of None \<Rightarrow> Inl (ApiException 404) | Some j \<Rightarrow> Inr j))"

definition delete_namespaced_job ::
  "cluster \<Rightarrow> string \<Rightarrow> string \<Rightarrow> (py_error + unit) \<times> cluster" where
  "delete_namespaced_job c name policy =
     (let c' = c\<lparr>delete_requests := delete_requests c @ [(name, policy)]\<rparr> in
      case delete_fault c of
        Some s \<Rightarrow> (Inl (ApiException s), c')
      | None \<Rightarrow>
          (case jobs c name of
             None \<Rightarrow> (Inl (ApiException 404), c')
           | Some j \<Rightarrow> (Inr (), c'\<lparr>jobs := (jobs c)(name := None)\<rparr>)))"

section \<open>Status derivation\<close>

text \<open>
  The enum \<^verbatim>\<open>Status\<close>. Its member \<^verbatim>\<open>failed\<close> is \<open>failed_status\<close> here, \<open>failed\<close> being the
  counter of the Job.
\<close>

datatype Status = none | training | success | failed_status

definition job_name :: "config \<Rightarrow> string \<Rightarrow> string" where
  "job_name cfg job_id = KUBE_DEFAULT_NAME_PREFIX cfg @ ''-job-'' @ job_id"

definition s3_model_dir :: "config \<Rightarrow> string \<Rightarrow> string \<Rightarrow> string" where
  "s3_model_dir cfg project_id data_hash = S3_DIR cfg @ ''/'' @ project_id @ ''/'' @ data_hash"

text \<open>\<^verbatim>\<open>_get_job\<close>: a 404 is the absent Job, any other API failure is raised again.
  \<^verbatim>\<open>status\<close> tests the counters for truth, in the order succeeded, active, failed.\<close>

definition get_job :: "config \<Rightarrow> cluster \<Rightarrow> string \<Rightarrow> py_error + V1Job option" where
  "get_job cfg c job_id =
     (case read_namespaced_job c (job_name cfg job_id) of
        Inr j \<Rightarrow> Inr (Some j)
      | Inl (ApiException s) \<Rightarrow> (if s \<noteq> 404 then Inl (ApiException s) else Inr None)
      | Inl e \<Rightarrow> Inl e)"

definition status :: "config \<Rightarrow> cluster \<Rightarrow> string \<Rightarrow> py_error + Status" where
  "status cfg c job_id =
     (case get_job cfg c job_id of
        Inl e \<Rightarrow> Inl e
      | Inr None \<Rightarrow> Inr none
      | Inr (Some job) \<Rightarrow>
          (let st = job_status job in
           if truthy_int (succeeded st) then Inr success
           else if truthy_int (active st) then Inr training
           else if truthy_int (failed st) then Inr failed_status
           else Inr none))"

text \<open>
  The priority order in the words of the specification, to compare \<^verbatim>\<open>status\<close> with. A
  counter of the orchestrator is a number of pods, or unset: \<open>count_pos\<close> is "the count is
  greater than zero", and \<open>counters_valid\<close> says that no counter is negative.
\<close>

definition count_pos :: "int option \<Rightarrow> bool" where
  "count_pos x = (case x of None \<Rightarrow> False | Some n \<Rightarrow> 0 < n)"

definition count_valid :: "int option \<Rightarrow> bool" where
  "count_valid x = (case x of None \<Rightarrow> True | Some n \<Rightarrow> 0 \<le> n)"

definition counters_valid :: "V1JobStatus \<Rightarrow> bool" where
  "counters_valid st \<longleftrightarrow> count_valid (active st) \<and> count_valid (succeeded st) \<and> count_valid (failed st)"

definition status_of_counters :: "V1JobStatus \<Rightarrow> Status" where
  "status_of_counters st =
     (if count_pos (succeeded st) then success
      else if count_pos (active st) then training
      else if count_pos (failed st) then failed_status
      else none)"

section \<open>Structured documents\<close>

text \<open>
  What \<^verbatim>\<open>yaml.safe_load\<close> returns: scalars, sequences and mappings. A Python dict keeps
  its keys in insertion order, so a mapping is an association list, read with \<open>map_of\<close>
  and written with \<open>AList.update\<close> (which replaces the value of a key that is there and
  appends a key that is not). A key is a string or an integer: \<^verbatim>\<open>d[0]\<close> and \<^verbatim>\<open>d['0']\<close>
  are different entries of a dict. The documents are trees: no object is reachable by
  two paths.
\<close>

datatype ykey = KStr string | KInt int

datatype yval =
    YNull
  | YBool bool
  | YInt int
  | YStr string
  | YList "yval list"
  | YDict "(ykey \<times> yval) list"

section \<open>Python primitives used by dict_set\<close>

text \<open>
  \<^verbatim>\<open>str.split(sep)\<close> with a one-character separator: the text between the separators, empty pieces included; never the
  empty list.
\<close>

fun py_split :: "char \<Rightarrow> string \<Rightarrow> string list" where
  "py_split sep [] = [[]]"
| "py_split sep (c # cs) =
     (if c = sep then [] # py_split sep cs
      else (case py_split sep cs of [] \<Rightarrow> [[c]] | w # ws \<Rightarrow> (c # w) # ws))"

text \<open>
  \<^verbatim>\<open>int(k)\<close> on a string. A character of the model is a code point below 256. The
  blanks that \<^verbatim>\<open>int\<close> drops at both ends are the code points 9 to 13, 32, 133 and 160:
  the separators 28 to 31, which \<^verbatim>\<open>str.strip\<close> drops, are not among them. Between the
  blanks one sign is allowed, then decimal digits with single underscores between
  digits; the only decimal digits below 256 are \<^verbatim>\<open>0\<close> to \<^verbatim>\<open>9\<close>. A literal of more
  than \<open>int_max_str_digits\<close> digits is refused, whatever its value; 4300 is the limit
  that the interpreter starts with. \<open>None\<close> is the \<^verbatim>\<open>ValueError\<close> that the source catches.
\<close>

definition is_space :: "char \<Rightarrow> bool" where
  "is_space c \<longleftrightarrow>
     (let n = (of_char c :: nat) in (9 \<le> n \<and> n \<le> 13) \<or> n = 32 \<or> n = 133 \<or> n = 160)"

definition is_digit :: "char \<Rightarrow> bool" where
  "is_digit c \<longleftrightarrow> (let n = (of_char c :: nat) in 48 \<le> n \<and> n \<le> 57)"

definition digit_val :: "char \<Rightarrow> int" where
  "digit_val c = int (of_char c) - 48"

definition strip :: "string \<Rightarrow> string" where
  "strip s = rev (dropWhile is_space (rev (dropWhile is_space s)))"

fun parse_digits :: "int \<Rightarrow> bool \<Rightarrow> string \<Rightarrow> int option" where
  "parse_digits acc after_digit [] = (if after_digit then Some acc else None)"
| "parse_digits acc after_digit (c # cs) =
     (if is_digit c then parse_digits (acc * 10 + digit_val c) True cs
      else if c = CHR ''_'' \<and> after_digit then parse_digits acc False cs
      else None)"

definition int_max_str_digits :: int where
  "int_max_str_digits = 4300"

definition parse_literal :: "string \<Rightarrow> int option" where
  "parse_literal s =
     (if int_max_str_digits < int (length (filter is_digit s)) then None
      else parse_digits 0 False s)"

definition py_int :: "string \<Rightarrow> int option" where
  "py_int k =
     (case strip k of
        [] \<Rightarrow> None
      | c # cs \<Rightarrow>
          if c = CHR ''-'' then map_option uminus (parse_literal cs)
          else if c = CHR ''+'' then parse_literal cs
          else parse_literal (c # cs))"

text \<open>
  \<^verbatim>\<open>os.path.dirname\<close> of posixpath: the text up to the last slash; trailing slashes of
  that head are dropped unless the head is slashes only.
\<close>

definition dirname :: "string \<Rightarrow> string" where
  "dirname p =
     (let head = rev (dropWhile (\<lambda>c. c \<noteq> CHR ''/'') (rev p)) in
      if head \<noteq> [] \<and> head \<noteq> replicate (length head) (CHR ''/'')
      then rev (dropWhile (\<lambda>c. c = CHR ''/'') (rev head))
      else head)"

text \<open>
  The position that index \<open>i\<close> names in a sequence of length \<open>n\<close>: a negative index
  counts from the end, and an index outside \<open>-n .. n-1\<close> is an \<^verbatim>\<open>IndexError\<close>.
\<close>

definition list_index :: "nat \<Rightarrow> int \<Rightarrow> nat option" where
  "list_index n i =
     (if 0 \<le> i \<and> i < int n then Some (nat i)
      else if i < 0 \<and> - int n \<le> i then Some (nat (int n + i))
      else None)"

text \<open>\<^verbatim>\<open>current[i]\<close> with an integer \<open>i\<close>, and \<^verbatim>\<open>current[k]\<close> with a string \<open>k\<close>.\<close>

fun getitem_int :: "yval \<Rightarrow> int \<Rightarrow> py_error + yval" where
  "getitem_int (YDict m) i =
     (case map_of m (KInt i) of None \<Rightarrow> Inl KeyError | Some v \<Rightarrow> Inr v)"
| "getitem_int (YList xs) i =
     (case list_index (length xs) i of None \<Rightarrow> Inl IndexError | Some n \<Rightarrow> Inr (xs ! n))"
| "getitem_int (YStr s) i =
     (case list_index (length s) i of None \<Rightarrow> Inl IndexError | Some n \<Rightarrow> Inr (YStr [s ! n]))"
| "getitem_int _ i = Inl TypeError"

fun getitem_str :: "yval \<Rightarrow> string \<Rightarrow> py_error + yval" where
  "getitem_str (YDict m) k =
     (case map_of m (KStr k) of None \<Rightarrow> Inl KeyError | Some v \<Rightarrow> Inr v)"
| "getitem_str _ k = Inl TypeError"

text \<open>\<^verbatim>\<open>current[i] = value\<close> and \<^verbatim>\<open>current[k] = value\<close>; the result is the container after the
  assignment.\<close>

fun setitem_int :: "yval \<Rightarrow> int \<Rightarrow> yval \<Rightarrow> py_error + yval" where
  "setitem_int (YDict m) i v = Inr (YDict (AList.update (KInt i) v m))"
| "setitem_int (YList xs) i v =
     (case list_index (length xs) i of
        None \<Rightarrow> Inl IndexError
      | Some n \<Rightarrow> Inr (YList (xs[n := v])))"
| "setitem_int _ i v = Inl TypeError"

fun setitem_str :: "yval \<Rightarrow> string \<Rightarrow> yval \<Rightarrow> py_error + yval" where
  "setitem_str (YDict m) k v = Inr (YDict (AList.update (KStr k) v m))"
| "setitem_str _ k v = Inl TypeError"

section \<open>The patch operation dict_set\<close>

text \<open>
  One pass of the loop body: \<^verbatim>\<open>try: i = int(k); current = current[i]\<close>,
  \<^verbatim>\<open>except ValueError: current = current[k]\<close>. Only the \<^verbatim>\<open>ValueError\<close> of \<^verbatim>\<open>int\<close> is caught;
  a \<^verbatim>\<open>KeyError\<close>, \<^verbatim>\<open>IndexError\<close> or \<^verbatim>\<open>TypeError\<close> of the subscript leaves the function.
\<close>

definition descend :: "yval \<Rightarrow> string \<Rightarrow> py_error + yval" where
  "descend current k =
     (case py_int k of Some i \<Rightarrow> getitem_int current i | None \<Rightarrow> getitem_str current k)"

text \<open>The final statement: \<^verbatim>\<open>try: i = int(k); current[i] = value\<close>,
  \<^verbatim>\<open>except ValueError: current[k] = value\<close>.\<close>

definition assign :: "yval \<Rightarrow> string \<Rightarrow> yval \<Rightarrow> py_error + yval" where
  "assign current k v =
     (case py_int k of Some i \<Rightarrow> setitem_int current i v | None \<Rightarrow> setitem_str current k v)"

text \<open>
  The source walks down by reference and assigns in place at the end. On a tree this is
  the document in which the container reached by the walk is replaced by the assigned
  one, which is what the recursion returns: each level puts the patched child back under
  the segment it was read with. An exception leaves the document as it was.
\<close>

fun dict_set_keys :: "yval \<Rightarrow> string list \<Rightarrow> yval \<Rightarrow> py_error + yval" where
  "dict_set_keys d [] v = Inl IndexError"
| "dict_set_keys d [k] v = assign d k v"
| "dict_set_keys d (k # ks) v =
     (case descend d k of
        Inl e \<Rightarrow> Inl e
      | Inr child \<Rightarrow>
          (case dict_set_keys child ks v of
             Inl e \<Rightarrow> Inl e
           | Inr child' \<Rightarrow> assign d k child'))"

definition dict_set :: "yval \<Rightarrow> string \<Rightarrow> yval \<Rightarrow> py_error + yval" where
  "dict_set d path v = dict_set_keys d (py_split (CHR ''.'') path) v"

text \<open>The value that a list of segments leads to: the loop of \<^verbatim>\<open>dict_set\<close> alone.\<close>

fun resolve :: "yval \<Rightarrow> string list \<Rightarrow> py_error + yval" where
  "resolve d [] = Inr d"
| "resolve d (k # ks) = (case descend d k of Inl e \<Rightarrow> Inl e | Inr child \<Rightarrow> resolve child ks)"


definition seg_key :: "string \<Rightarrow> ykey" where
  "seg_key k = (case py_int k of Some i \<Rightarrow> KInt i | None \<Rightarrow> KStr k)"

section \<open>The canonical form of a document\<close>

text \<open>
  \<^verbatim>\<open>yaml.safe_dump(data, sort_keys=True)\<close>, as far as the order of keys goes. The
  representer of the library takes the items of every mapping through \<^verbatim>\<open>sorted\<close> and
  keeps them in the order of the mapping when \<^verbatim>\<open>sorted\<close> raises \<^verbatim>\<open>TypeError\<close>. The items
  of a dict are pairs with different keys, so \<^verbatim>\<open>sorted\<close> compares keys only: two strings
  by their code points, two integers by their value, and a string with an integer not at
  all, which is the \<^verbatim>\<open>TypeError\<close>. \<open>py_sorted\<close> is \<^verbatim>\<open>sorted\<close> on the items of a mapping, with
  \<open>None\<close> for that exception.
\<close>

definition all_str :: "ykey list \<Rightarrow> bool" where
  "all_str ks = list_all (\<lambda>k. case k of KStr s \<Rightarrow> True | KInt i \<Rightarrow> False) ks"

definition all_int :: "ykey list \<Rightarrow> bool" where
  "all_int ks = list_all (\<lambda>k. case k of KStr s \<Rightarrow> False | KInt i \<Rightarrow> True) ks"

definition str_of :: "ykey \<Rightarrow> string" where
  "str_of k = (case k of KStr s \<Rightarrow> s | KInt i \<Rightarrow> [])"

definition int_of :: "ykey \<Rightarrow> int" where
  "int_of k = (case k of KStr s \<Rightarrow> 0 | KInt i \<Rightarrow> i)"

definition py_sorted :: "(ykey \<times> 'a) list \<Rightarrow> (ykey \<times> 'a) list option" where
  "py_sorted items =
     (if all_str (map fst items) then Some (sort_key (\<lambda>item. str_of (fst item)) items)
      else if all_int (map fst items) then Some (sort_key (\<lambda>item. int_of (fst item)) items)
      else None)"

text \<open>
  \<^verbatim>\<open>represent_mapping\<close> with \<^verbatim>\<open>sort_keys\<close>: the items in the order in which they are
  written. \<open>represent_data\<close> is the value as it is written: every mapping of it, at any
  depth, with its items in that order. The order depends on the keys only, so it does
  not matter that the values are taken before the items are ordered.
\<close>

definition represent_mapping :: "(ykey \<times> 'a) list \<Rightarrow> (ykey \<times> 'a) list" where
  "represent_mapping items = (case py_sorted items of Some s \<Rightarrow> s | None \<Rightarrow> items)"

fun represent_data :: "yval \<Rightarrow> yval" where
  "represent_data (YList xs) = YList (map represent_data xs)"
| "represent_data (YDict m) =
     YDict (represent_mapping (map (\<lambda>(k, v). (k, represent_data v)) m))"
| "represent_data v = v"




section \<open>Cancellation\<close>

text \<open>
  \<^verbatim>\<open>cancel\<close>: nothing is sent unless the status is \<open>training\<close>; then one delete with
  propagation policy \<^verbatim>\<open>Background\<close>, whose 404 is answered with \<^verbatim>\<open>False\<close> and whose other
  failures are raised again. The second component is the orchestrator after the call.
\<close>

definition cancel :: "config \<Rightarrow> cluster \<Rightarrow> string \<Rightarrow> (py_error + bool) \<times> cluster" where
  "cancel cfg c job_id =
     (case status cfg c job_id of
        Inl e \<Rightarrow> (Inl e, c)
      | Inr st \<Rightarrow>
          if st \<noteq> training then (Inr False, c)
          else
            (case delete_namespaced_job c (job_name cfg job_id) ''Background'' of
               (Inr u, c') \<Rightarrow> (Inr True, c')
             | (Inl (ApiException s), c') \<Rightarrow>
                 if s = 404 then (Inr False, c') else (Inl (ApiException s), c')
             | (Inl e, c') \<Rightarrow> (Inl e, c')))"

text \<open>An orchestrator that holds one Job, named for job id \<open>j1\<close>, with one active pod.\<close>

definition running_cluster :: cluster where
  "running_cluster =
     \<lparr> jobs = [''et-job-j1'' \<mapsto>
                 \<lparr>job_status = \<lparr>active = Some 1, succeeded = None, failed = None\<rparr>,
                  job_labels = [(''et/project-id'', ''p1''), (''et/data-hash'', ''abc'')]\<rparr>],
       read_fault = None, delete_fault = None, delete_requests = [] \<rparr>"

section \<open>Submission\<close>

text \<open>
  What \<^verbatim>\<open>train\<close> calls outside the repository, as parameters. \<open>safe_load\<close> is
  \<^verbatim>\<open>yaml.safe_load\<close>: the structured value of a document, or the exception of a document
  that is not well-formed. The value is a tree: a document with aliases, in which one
  object is reached by two paths, is outside the model. \<open>yaml_emit\<close> is what the
  serializer and the emitter of \<^verbatim>\<open>yaml.safe_dump\<close> write for a value whose mappings are
  in the order in which they are to be written, which is \<^verbatim>\<open>yaml.safe_dump\<close> with
  \<^verbatim>\<open>sort_keys=False\<close>. \<open>md5_hexdigest\<close> is \<^verbatim>\<open>md5(s.encode()).hexdigest()\<close>. \<open>uuid4\<close> is the
  identifier drawn by this call. \<open>fs_makedirs\<close>, \<open>fs_write\<close> and \<open>s3_put\<close> are the
  outcome of storing the training data (\<open>None\<close> when the call returns, the exception
  otherwise). The two templates and the worker script are files of the repository that
  are read at each call. \<open>create_from_dict\<close> is \<^verbatim>\<open>kubernetes.utils.create_from_dict\<close>: the
  uids of the objects created, or the exception; a \<open>FailToCreateError\<close> carries the
  \<^verbatim>\<open>reason\<close> of the body of each of its API exceptions.
\<close>

record world =
  safe_load :: "string \<Rightarrow> py_error + yval"
  yaml_emit :: "yval \<Rightarrow> string"
  md5_hexdigest :: "string \<Rightarrow> string"
  uuid4 :: string
  fs_makedirs :: "string \<Rightarrow> py_error option"
  fs_write :: "string \<Rightarrow> string \<Rightarrow> py_error option"
  s3_put :: "string \<Rightarrow> string \<Rightarrow> py_error option"
  job_template :: yval
  cm_template :: yval
  train_py_template :: string
  create_from_dict :: "yval \<Rightarrow> py_error + string list"

text \<open>
  \<^verbatim>\<open>yaml.safe_dump(data, sort_keys=sort_keys)\<close>: with \<^verbatim>\<open>sort_keys\<close> the value is written
  as \<open>represent_data\<close> orders it, without it as it is.
\<close>

definition safe_dump :: "world \<Rightarrow> yval \<Rightarrow> bool \<Rightarrow> string" where
  "safe_dump w data sort_keys = yaml_emit w (if sort_keys then represent_data data else data)"

record train_request =
  project_id :: string
  image :: string
  training_data :: string
  rasa_extra_args :: "string option"
  node :: "string option"
  use_cache :: bool
  is_rasa_for_botfront :: bool


text \<open>
  \<^verbatim>\<open>kube_apply\<close>: a \<open>FailToCreateError\<close> is swallowed when \<open>allow_exists\<close> holds and every
  reason is \<^verbatim>\<open>AlreadyExists\<close>; the \<^verbatim>\<open>kind\<close> and the \<^verbatim>\<open>metadata.name\<close> of the object are then
  logged. The second component is what was logged.
\<close>

definition dict_get :: "yval \<Rightarrow> string \<Rightarrow> yval option" where
  "dict_get d k = (case d of YDict m \<Rightarrow> map_of m (KStr k) | _ \<Rightarrow> None)"


text \<open>An entry of the container's environment, \<^verbatim>\<open>{'name': n, 'value': v}\<close>.\<close>

definition opt_str :: "string option \<Rightarrow> yval" where
  "opt_str x = (case x of None \<Rightarrow> YNull | Some s \<Rightarrow> YStr s)"

definition env_entry :: "string \<Rightarrow> string option \<Rightarrow> yval" where
  "env_entry n v = YDict [(KStr ''name'', YStr n), (KStr ''value'', opt_str v)]"

text \<open>Lines 157 to 177 of \<^verbatim>\<open>train\<close>.\<close>

definition job_envs :: "config \<Rightarrow> train_request \<Rightarrow> string \<Rightarrow> yval list" where
  "job_envs cfg req td_hash =
     [env_entry ''S3_MODEL_DIR'' (Some (s3_model_dir cfg (project_id req) td_hash)),
      env_entry ''S3_BUCKET_NAME'' (S3_BUCKET_NAME cfg),
      env_entry ''S3_ENDPOINT'' (S3_ENDPOINT cfg),
      env_entry ''S3_REGION'' (S3_REGION cfg)]
     @ (if truthy_str (rasa_extra_args req)
        then [env_entry ''RASA_EXTRA_ARGS'' (rasa_extra_args req)] else [])
     @ (if use_cache req
        then [env_entry ''S3_CACHE_PATH''
                (Some (S3_CACHE_DIR cfg @ ''/'' @ project_id req @ ''/cache.tar.gz''))]
        else [])
     @ (if truthy_str (LOCAL_VOLUME_PATH cfg)
        then [env_entry ''LOCAL_VOLUME_PATH'' (LOCAL_VOLUME_PATH cfg)] else [])
     @ (if is_rasa_for_botfront req \<or> truthy_str (IS_RASA_FOR_BOTFRONT cfg)
        then [env_entry ''IS_RASA_FOR_BOTFRONT'' (IS_RASA_FOR_BOTFRONT cfg)] else [])"

text \<open>A run of \<^verbatim>\<open>dict_set\<close> calls on one document, stopped by the first exception.\<close>

fun dict_set_all :: "yval \<Rightarrow> (string \<times> yval) list \<Rightarrow> py_error + yval" where
  "dict_set_all d [] = Inr d"
| "dict_set_all d ((path, v) # rest) =
     (case dict_set d path v of Inl e \<Rightarrow> Inl e | Inr d' \<Rightarrow> dict_set_all d' rest)"

text \<open>
  \<^verbatim>\<open>d[k1][k2]\<dots>.append(item)\<close> with literal subscripts: the document with the item at the
  end of the sequence that the subscripts lead to.
\<close>

definition getitem :: "yval \<Rightarrow> ykey \<Rightarrow> py_error + yval" where
  "getitem d k = (case k of KStr s \<Rightarrow> getitem_str d s | KInt i \<Rightarrow> getitem_int d i)"

definition setitem :: "yval \<Rightarrow> ykey \<Rightarrow> yval \<Rightarrow> py_error + yval" where
  "setitem d k v = (case k of KStr s \<Rightarrow> setitem_str d s v | KInt i \<Rightarrow> setitem_int d i v)"

fun append_at :: "yval \<Rightarrow> ykey list \<Rightarrow> yval \<Rightarrow> py_error + yval" where
  "append_at d [] item =
     (case d of YList xs \<Rightarrow> Inr (YList (xs @ [item])) | _ \<Rightarrow> Inl AttributeError)"
| "append_at d (k # ks) item =
     (case getitem d k of
        Inl e \<Rightarrow> Inl e
      | Inr child \<Rightarrow>
          (case append_at child ks item of
             Inl e \<Rightarrow> Inl e
           | Inr child' \<Rightarrow> setitem d k child'))"

text \<open>Lines 179 to 206 of \<^verbatim>\<open>train\<close>: the Job object made from its template.\<close>

definition job_patches ::
  "config \<Rightarrow> train_request \<Rightarrow> string \<Rightarrow> string \<Rightarrow> (string \<times> yval) list" where
  "job_patches cfg req td_hash job_id =
     [(''metadata.name'', YStr (job_name cfg job_id)),
      (''metadata.labels.et/project-id'', YStr (project_id req)),
      (''metadata.labels.et/data-hash'', YStr td_hash),
      (''spec.template.spec.containers.0.env'', YList (job_envs cfg req td_hash)),
      (''spec.template.spec.containers.0.envFrom.0.secretRef.name'',
         YStr (KUBE_S3_SECRET_NAME cfg)),
      (''spec.template.spec.containers.0.image'', YStr (image req)),
      (''spec.template.spec.volumes.0.configMap.name'',
         YStr (KUBE_DEFAULT_NAME_PREFIX cfg @ ''-cm-'' @ job_id)),
      (''spec.template.spec.imagePullSecrets.0.name'', YStr (KUBE_REGCRED_SECRET_NAME cfg))]
     @ (case node req of
          None \<Rightarrow> []
        | Some n \<Rightarrow> [(''spec.template.spec.nodeName'', YStr n)])"

definition build_job ::
  "config \<Rightarrow> yval \<Rightarrow> train_request \<Rightarrow> string \<Rightarrow> string \<Rightarrow> py_error + yval" where
  "build_job cfg template req td_hash job_id =
     (case dict_set_all template (job_patches cfg req td_hash job_id) of
        Inl e \<Rightarrow> Inl e
      | Inr job \<Rightarrow>
          if truthy_str (LOCAL_VOLUME_PATH cfg) \<and> truthy_str (LOCAL_VOLUME_PVC_NAME cfg) then
            (case append_at job [KStr ''spec'', KStr ''template'', KStr ''spec'', KStr ''volumes'']
                    (YDict [(KStr ''name'', YStr ''train-data''),
                            (KStr ''persistentVolumeClaim'',
                               YDict [(KStr ''claimName'', opt_str (LOCAL_VOLUME_PVC_NAME cfg))])]) of
               Inl e \<Rightarrow> Inl e
             | Inr job' \<Rightarrow>
                 append_at job'
                   [KStr ''spec'', KStr ''template'', KStr ''spec'', KStr ''containers'', KInt 0,
                    KStr ''volumeMounts'']
                   (YDict [(KStr ''name'', YStr ''train-data''),
                           (KStr ''mountPath'', opt_str (LOCAL_VOLUME_PATH cfg))]))
          else Inr job)"

text \<open>Lines 216 to 223 of \<^verbatim>\<open>train\<close>: the Config object made from its template.\<close>

definition build_cm ::
  "config \<Rightarrow> yval \<Rightarrow> string \<Rightarrow> train_request \<Rightarrow> string \<Rightarrow> string \<Rightarrow> string \<Rightarrow> py_error + yval"
where
  "build_cm cfg template script req td_hash job_id job_uid =
     dict_set_all template
       [(''metadata.labels.et/job-id'', YStr job_id),
        (''metadata.labels.et/project-id'', YStr (project_id req)),
        (''metadata.labels.et/data-hash'', YStr td_hash),
        (''metadata.ownerReferences.0.name'', YStr (job_name cfg job_id)),
        (''metadata.ownerReferences.0.uid'', YStr job_uid),
        (''metadata.name'', YStr (KUBE_DEFAULT_NAME_PREFIX cfg @ ''-cm-'' @ job_id)),
        (''data.train_py'', YStr script)]"

text \<open>
  Line 134: the canonical text of the training data,
  \<^verbatim>\<open>yaml.safe_dump(yaml.safe_load(training_data), sort_keys=True)\<close>.
\<close>

definition canonical_training_data :: "world \<Rightarrow> string \<Rightarrow> py_error + string" where
  "canonical_training_data w td =
     (case safe_load w td of Inl e \<Rightarrow> Inl e | Inr doc \<Rightarrow> Inr (safe_dump w doc True))"

text \<open>Lines 141 to 151: the training data is written to the volume or put into the bucket.\<close>

definition upload_train_data :: "config \<Rightarrow> world \<Rightarrow> string \<Rightarrow> string \<Rightarrow> py_error option" where
  "upload_train_data cfg w path content =
     (case LOCAL_VOLUME_PATH cfg of
        None \<Rightarrow> s3_put w path content
      | Some base \<Rightarrow>
          if base = [] then s3_put w path content
          else
            (let train_data_full_path = base @ ''/'' @ path in
             case fs_makedirs w (dirname train_data_full_path) of
               Some e \<Rightarrow> Some e
             | None \<Rightarrow> fs_write w train_data_full_path content))"

text \<open>
  What a submission does outside the process, in order: the training data stored under a
  path (relative to the volume or as the key in the bucket), and an object handed to the
  orchestrator for creation.
\<close>

datatype effect = Stored string string | Submitted yval

text \<open>
  \<^verbatim>\<open>train\<close>. \<open>td_hash\<close> is the ContentHash of line 135, the digest of the canonical text,
  and \<open>model_dir\<close> the Model Directory of line 138. Both objects are created with \<^verbatim>\<open>create_from_dict\<close> itself, not through
  \<^verbatim>\<open>kube_apply\<close>; \<^verbatim>\<open>created_job[0]\<close> is an \<^verbatim>\<open>IndexError\<close> on an empty list. The second
  component is what the call did outside the process before it returned or raised.
\<close>

definition train ::
  "config \<Rightarrow> world \<Rightarrow> train_request \<Rightarrow> (py_error + (string \<times> bool)) \<times> effect list" where
  "train cfg w req =
     (case canonical_training_data w (training_data req) of
        Inl e \<Rightarrow> (Inl e, [])
      | Inr canonical \<Rightarrow>
     (let td_hash = md5_hexdigest w canonical;
          job_id = uuid4 w;
          model_dir = s3_model_dir cfg (project_id req) td_hash;
          train_data_path = model_dir @ ''/train_data.yml'';
          stored = [Stored train_data_path canonical] in
      case upload_train_data cfg w train_data_path canonical of
        Some e \<Rightarrow> (Inl e, stored)
      | None \<Rightarrow>
     (case build_job cfg (job_template w) req td_hash job_id of
        Inl e \<Rightarrow> (Inl e, stored)
      | Inr job \<Rightarrow>
     (case create_from_dict w job of
        Inl e \<Rightarrow> (Inl e, stored @ [Submitted job])
      | Inr created_job \<Rightarrow>
     (case created_job of
        [] \<Rightarrow> (Inl IndexError, stored @ [Submitted job])
      | job_uid # others \<Rightarrow>
     (case build_cm cfg (cm_template w) (train_py_template w) req td_hash job_id job_uid of
        Inl e \<Rightarrow> (Inl e, stored @ [Submitted job])
      | Inr cm \<Rightarrow>
     (case create_from_dict w cm of
        Inl e \<Rightarrow> (Inl e, stored @ [Submitted job, Submitted cm])
      | Inr created_cm \<Rightarrow>
          (Inr (job_id, True), stored @ [Submitted job, Submitted cm]))))))))"

text \<open>
  Templates with the fields that \<^verbatim>\<open>train\<close> patches, a world in which every outside call
  returns, and a request.
\<close>

definition example_job_template :: yval where
  "example_job_template =
     YDict [(KStr ''apiVersion'', YStr ''batch/v1''),
            (KStr ''kind'', YStr ''Job''),
            (KStr ''metadata'', YDict [(KStr ''name'', YNull), (KStr ''labels'', YDict [])]),
            (KStr ''spec'', YDict [(KStr ''template'', YDict [(KStr ''spec'',
               YDict [(KStr ''containers'',
                        YList [YDict [(KStr ''name'', YStr ''train''),
                                      (KStr ''image'', YNull),
                                      (KStr ''env'', YList []),
                                      (KStr ''envFrom'',
                                         YList [YDict [(KStr ''secretRef'',
                                                  YDict [(KStr ''name'', YNull)])]]),
                                      (KStr ''volumeMounts'', YList [])]]),
                      (KStr ''volumes'',
                        YList [YDict [(KStr ''name'', YStr ''train-py''),
                                      (KStr ''configMap'', YDict [(KStr ''name'', YNull)])]]),
                      (KStr ''imagePullSecrets'', YList [YDict [(KStr ''name'', YNull)]]),
                      (KStr ''restartPolicy'', YStr ''Never'')])])])]"

definition example_cm_template :: yval where
  "example_cm_template =
     YDict [(KStr ''apiVersion'', YStr ''v1''),
            (KStr ''kind'', YStr ''ConfigMap''),
            (KStr ''metadata'',
               YDict [(KStr ''name'', YNull),
                      (KStr ''labels'', YDict []),
                      (KStr ''ownerReferences'',
                         YList [YDict [(KStr ''kind'', YStr ''Job''),
                                       (KStr ''name'', YNull), (KStr ''uid'', YNull)]])]),
            (KStr ''data'', YDict [])]"

text \<open>
  The library at the documents used below: what \<^verbatim>\<open>yaml.safe_load\<close> returns for six
  documents, what \<^verbatim>\<open>yaml.safe_dump\<close> writes for their values in the order in which they are
  written, and the MD5 digests of these texts. They are the values of PyYAML 6.0 and of
  \<^verbatim>\<open>hashlib\<close>. \<open>text_lines\<close> is a text of lines, each ended by a line feed.
\<close>

definition text_lines :: "string list \<Rightarrow> string" where
  "text_lines ls = concat (map (\<lambda>l. l @ [CHR 0x0A]) ls)"

definition example_documents :: "(string \<times> yval) list" where
  "example_documents =
     [(''{a: 1, b: 2}'', YDict [(KStr ''a'', YInt 1), (KStr ''b'', YInt 2)]),
      (''{b: 2,   a: 1}'', YDict [(KStr ''b'', YInt 2), (KStr ''a'', YInt 1)]),
      (''{b: {d: 1, c: 2}, a: [x, {z: 1, y: 2}]}'',
         YDict [(KStr ''b'', YDict [(KStr ''d'', YInt 1), (KStr ''c'', YInt 2)]),
                (KStr ''a'', YList [YStr ''x'', YDict [(KStr ''z'', YInt 1), (KStr ''y'', YInt 2)]])]),
      (''{a: [x, {y: 2, z: 1}], b: {c: 2, d: 1}}'',
         YDict [(KStr ''a'', YList [YStr ''x'', YDict [(KStr ''y'', YInt 2), (KStr ''z'', YInt 1)]]),
                (KStr ''b'', YDict [(KStr ''c'', YInt 2), (KStr ''d'', YInt 1)])]),
      (''{1: a, b: c}'', YDict [(KInt 1, YStr ''a''), (KStr ''b'', YStr ''c'')]),
      (''{b: c, 1: a}'', YDict [(KStr ''b'', YStr ''c''), (KInt 1, YStr ''a'')])]"

definition example_texts :: "(yval \<times> string) list" where
  "example_texts =
     [(YDict [(KStr ''a'', YInt 1), (KStr ''b'', YInt 2)], text_lines [''a: 1'', ''b: 2'']),
      (YDict [(KStr ''a'', YList [YStr ''x'', YDict [(KStr ''y'', YInt 2), (KStr ''z'', YInt 1)]]),
              (KStr ''b'', YDict [(KStr ''c'', YInt 2), (KStr ''d'', YInt 1)])],
         text_lines [''a:'', ''- x'', ''- y: 2'', ''  z: 1'', ''b:'', ''  c: 2'', ''  d: 1'']),
      (YDict [(KInt 1, YStr ''a''), (KStr ''b'', YStr ''c'')], text_lines [''1: a'', ''b: c'']),
      (YDict [(KStr ''b'', YStr ''c''), (KInt 1, YStr ''a'')], text_lines [''b: c'', ''1: a''])]"

definition example_digests :: "(string \<times> string) list" where
  "example_digests =
     [(text_lines [''a: 1'', ''b: 2''], ''3bcde6d55b49cfbe526f991dbc7d53d9''),
      (text_lines [''a:'', ''- x'', ''- y: 2'', ''  z: 1'', ''b:'', ''  c: 2'', ''  d: 1''],
         ''085f396267977c0f1fb039da9772e7b5''),
      (text_lines [''1: a'', ''b: c''], ''4992a6c12fb0a3dcca24d4625bd8675d''),
      (text_lines [''b: c'', ''1: a''], ''5d83ea560d7e6f74b69c172cc8e61dd4'')]"

text \<open>
  A world with this library, in which every outside call returns. A document that is
  not among the six is taken as not well-formed.
\<close>

definition example_world :: world where
  "example_world =
     \<lparr> safe_load = (\<lambda>s. case map_of example_documents s of
                          None \<Rightarrow> Inl (OtherError ''yaml.YAMLError'')
                        | Some doc \<Rightarrow> Inr doc),
       yaml_emit = (\<lambda>v. case map_of example_texts v of None \<Rightarrow> [] | Some t \<Rightarrow> t),
       md5_hexdigest = (\<lambda>s. case map_of example_digests s of None \<Rightarrow> [] | Some h \<Rightarrow> h),
       uuid4 = ''j1'',
       fs_makedirs = (\<lambda>p. None), fs_write = (\<lambda>p s. None), s3_put = (\<lambda>k s. None),
       job_template = example_job_template, cm_template = example_cm_template,
       train_py_template = ''main()'', create_from_dict = (\<lambda>obj. Inr [''uid-1'']) \<rparr>"


definition example_request :: train_request where
  "example_request =
     \<lparr> project_id = ''p1'', image = ''img:tag'', training_data = ''{b: 2,   a: 1}'',
       rasa_extra_args = None, node = None, use_cache = True, is_rasa_for_botfront = True \<rparr>"

text \<open>
  Two paths part ways at a mapping when they agree up to some segment and there name two
  different keys, neither of them numeric. The first path is the path of a \<^verbatim>\<open>dict_set\<close>
  (its segments) or of an \<^verbatim>\<open>append\<close> (its subscripts), the second the path that is read.
\<close>

fun parts_ways :: "string list \<Rightarrow> string list \<Rightarrow> bool" where
  "parts_ways (k # ks) (q # qs) =
     (if k = q then parts_ways ks qs else py_int k = None \<and> py_int q = None)"
| "parts_ways ks qs = False"

fun key_parts_ways :: "ykey list \<Rightarrow> string list \<Rightarrow> bool" where
  "key_parts_ways (k # ks) (q # qs) =
     (if k = seg_key q then key_parts_ways ks qs
      else (case k of KStr s \<Rightarrow> py_int q = None | KInt i \<Rightarrow> False))"
| "key_parts_ways ks qs = False"

text \<open>The segments of the path under which \<^verbatim>\<open>train\<close> stores the environment of the Job.\<close>

definition env_path :: "string list" where
  "env_path = [''spec'', ''template'', ''spec'', ''containers'', ''0'', ''env'']"


section \<open>The resilient upload of the worker\<close>

text \<open>
  What the worker prints and does between its calls, in order: a printed line, a printed
  traceback, a sleep of so many seconds, the run of the training command.
\<close>

datatype event = Printed string | Traceback py_error | Slept int | Ran "string list"

text \<open>The last two lines of the loop body: \<^verbatim>\<open>if pause < max_pause: pause *= 2\<close>.\<close>

definition next_pause :: "int \<Rightarrow> int \<Rightarrow> int" where
  "next_pause max_pause pause = (if pause < max_pause then pause * 2 else pause)"

text \<open>
  \<^verbatim>\<open>upload_to_s3\<close>: the \<^verbatim>\<open>while True\<close> loop, which may never return. \<open>s3_upload_file n\<close> is
  the outcome of the \<open>n\<close>-th call of the client's \<^verbatim>\<open>upload_file\<close>: \<open>None\<close> when it returns
  (the loop breaks), the exception when it raises (anything \<^verbatim>\<open>except Exception\<close>
  catches). The result is what was printed and slept, and \<open>None\<close> when the loop runs
  forever.
\<close>

partial_function (option) upload_loop ::
  "(nat \<Rightarrow> py_error option) \<Rightarrow> string \<Rightarrow> string \<Rightarrow> int \<Rightarrow> nat \<Rightarrow> int \<Rightarrow> event list
     \<Rightarrow> event list option"
where
  "upload_loop s3_upload_file local_path s3_path max_pause n pause log =
     (let log1 = log @ [Printed (''Uploading '' @ local_path @ '' to '' @ s3_path)] in
      case s3_upload_file n of
        None \<Rightarrow> Some (log1 @ [Printed (local_path @ '' uploaded'')])
      | Some e \<Rightarrow>
          upload_loop s3_upload_file local_path s3_path max_pause (Suc n)
            (next_pause max_pause pause) (log1 @ [Traceback e, Slept pause]))"

declare upload_loop.simps [code]

definition upload_to_s3 ::
  "(nat \<Rightarrow> py_error option) \<Rightarrow> string \<Rightarrow> string \<Rightarrow> int \<Rightarrow> int \<Rightarrow> event list option" where
  "upload_to_s3 s3_upload_file local_path s3_path pause max_pause =
     upload_loop s3_upload_file local_path s3_path max_pause 0 pause []"

text \<open>The sleeps and the logged exceptions of a run, in order.\<close>

fun sleeps :: "event list \<Rightarrow> int list" where
  "sleeps [] = []"
| "sleeps (Slept p # es) = p # sleeps es"
| "sleeps (e # es) = sleeps es"

fun failures :: "event list \<Rightarrow> py_error list" where
  "failures [] = []"
| "failures (Traceback e # es) = e # failures es"
| "failures (e # es) = failures es"


text \<open>
  The pause before the retry after the \<open>i\<close>-th failure, and the events of \<open>k\<close> failed
  attempts in a row starting at attempt \<open>n\<close>.
\<close>

fun pause_seq :: "int \<Rightarrow> int \<Rightarrow> nat \<Rightarrow> int" where
  "pause_seq max_pause pause 0 = pause"
| "pause_seq max_pause pause (Suc i) = pause_seq max_pause (next_pause max_pause pause) i"

definition retry_events ::
  "(nat \<Rightarrow> py_error option) \<Rightarrow> string \<Rightarrow> string \<Rightarrow> int \<Rightarrow> nat \<Rightarrow> int \<Rightarrow> nat \<Rightarrow> event list" where
  "retry_events s3_upload_file local_path s3_path max_pause n pause k =
     concat (map (\<lambda>i. [Printed (''Uploading '' @ local_path @ '' to '' @ s3_path),
                         Traceback (the (s3_upload_file (n + i))),
                         Slept (pause_seq max_pause pause i)]) [0..<k])"

section \<open>The worker script train.py\<close>

text \<open>
  The worker's own module constants (prefixed \<open>w_\<close>: the manager has constants of the
  same names) and the outcome of every call the script makes outside itself: \<open>None\<close>
  when the call returns, the exception when it raises. \<open>s3_upload_file src key n\<close> is the
  outcome of the \<open>n\<close>-th call of the S3 client's \<^verbatim>\<open>upload_file\<close> for that file and key
  (counted from 0); the other calls are made at most once for given arguments.
\<close>

record worker_env =
  w_LOCAL_VOLUME_PATH :: "string option"
  w_S3_MODEL_DIR :: string
  w_S3_CACHE_PATH :: "string option"
  w_RASA_EXTRA_ARGS :: "string option"
  os_mkdir :: "string \<Rightarrow> py_error option"
  os_makedirs :: "string \<Rightarrow> py_error option"
  shutil_copy :: "string \<Rightarrow> string \<Rightarrow> py_error option"
  s3_download_file :: "string \<Rightarrow> string \<Rightarrow> py_error option"
  s3_upload_file :: "string \<Rightarrow> string \<Rightarrow> nat \<Rightarrow> py_error option"
  unpack_archive :: "string \<Rightarrow> string \<Rightarrow> py_error option"
  make_archive :: "string \<Rightarrow> string \<Rightarrow> py_error option"
  subprocess_run :: "string list \<Rightarrow> py_error + int"
  path_exists :: "string \<Rightarrow> bool"

datatype storage = LocalStorage string | S3Storage

text \<open>\<^verbatim>\<open>LocalStorage.__init__\<close>: \<^verbatim>\<open>self.base_path = base_path or '.'\<close>.\<close>

definition LocalStorage_init :: "string option \<Rightarrow> storage" where
  "LocalStorage_init base_path =
     LocalStorage (case base_path of None \<Rightarrow> ''.'' | Some p \<Rightarrow> if p = [] then ''.'' else p)"

text \<open>
  \<^verbatim>\<open>upload_file\<close> of the two classes. The result is \<open>None\<close> when the call never returns,
  and otherwise the exception that left the call, if any, with what was printed.
\<close>

definition upload_file ::
  "worker_env \<Rightarrow> storage \<Rightarrow> string \<Rightarrow> string \<Rightarrow> (py_error option \<times> event list) option" where
  "upload_file env st local_path remote_path =
     (case st of
        LocalStorage base_path \<Rightarrow>
          (let r_file_path = base_path @ ''/'' @ remote_path;
               r_file_dir = dirname r_file_path in
           case os_makedirs env r_file_dir of
             Some e \<Rightarrow> Some (Some e, [])
           | None \<Rightarrow> Some (shutil_copy env local_path r_file_path, []))
      | S3Storage \<Rightarrow>
          map_option (Pair None)
            (upload_to_s3 (s3_upload_file env local_path remote_path) local_path remote_path
               10 2560))"

definition download_file :: "worker_env \<Rightarrow> storage \<Rightarrow> string \<Rightarrow> string \<Rightarrow> py_error option" where
  "download_file env st remote_path local_path =
     (case st of
        LocalStorage base_path \<Rightarrow> shutil_copy env (base_path @ ''/'' @ remote_path) local_path
      | S3Storage \<Rightarrow> s3_download_file env remote_path local_path)"

definition TRAIN_DATA_DIR :: string where
  "TRAIN_DATA_DIR = ''data''"

definition train_data_path :: string where
  "train_data_path = TRAIN_DATA_DIR @ ''/train_data.yml''"

definition model_path :: string where
  "model_path = ''/app/model.tar.gz''"

definition local_cache_dir :: string where
  "local_cache_dir = ''.rasa/cache''"

text \<open>
  The storage that \<^verbatim>\<open>main\<close> constructs, once, from \<^verbatim>\<open>LOCAL_VOLUME_PATH\<close>. The S3 client
  made by \<^verbatim>\<open>S3Storage()\<close> is behind the outcomes \<open>s3_download_file\<close> and
  \<open>s3_upload_file\<close>.
\<close>

definition make_storage :: "worker_env \<Rightarrow> storage" where
  "make_storage env =
     (if truthy_str (w_LOCAL_VOLUME_PATH env) then LocalStorage_init (w_LOCAL_VOLUME_PATH env)
      else S3Storage)"

text \<open>Lines 95 to 104 of \<^verbatim>\<open>main\<close>: the cache download in its \<^verbatim>\<open>try\<close>/\<^verbatim>\<open>except Exception\<close>.\<close>

definition restore_cache :: "worker_env \<Rightarrow> storage \<Rightarrow> event list" where
  "restore_cache env st =
     (case w_S3_CACHE_PATH env of
        None \<Rightarrow> []
      | Some cache_path \<Rightarrow>
          if cache_path = [] then []
          else
            (let log0 = [Printed (''Trying to download cache '' @ cache_path)];
                 failed = [Printed (''Error downloading '' @ cache_path)] in
             case download_file env st cache_path ''cache.tar.gz'' of
               Some e \<Rightarrow> log0 @ failed @ [Traceback e]
             | None \<Rightarrow>
                 (let log1 = log0 @ [Printed ''Cache downloaded'', Printed ''Extracting cache''] in
                  case unpack_archive env ''cache.tar.gz'' local_cache_dir of
                    Some e \<Rightarrow> log1 @ failed @ [Traceback e]
                  | None \<Rightarrow> log1)))"

definition rasa_cmd :: "worker_env \<Rightarrow> string list" where
  "rasa_cmd env =
     [''rasa'', ''train'', ''-c'', train_data_path, ''-d'', train_data_path,
      ''--fixed-model-name'', model_path]
     @ (case w_RASA_EXTRA_ARGS env of
          None \<Rightarrow> []
        | Some args \<Rightarrow>
            if args = [] then [] else filter (\<lambda>arg. arg \<noteq> []) (py_split (CHR '' '') args))"

text \<open>
  How the process ends: \<open>Finished\<close> when \<^verbatim>\<open>main\<close> returns, \<open>Exit n\<close> for \<^verbatim>\<open>exit(n)\<close>,
  \<open>Uncaught e\<close> when the exception \<open>e\<close> leaves \<^verbatim>\<open>main\<close>.
\<close>

datatype run_result = Finished | Exit int | Uncaught py_error

text \<open>
  Lines 78 to 127 of \<^verbatim>\<open>main\<close>, up to and including the upload of the model. The first
  component is how the process ended when it ended here, and \<open>None\<close> when the script
  goes on to the cache step. \<open>Ran cmd\<close> stands for the printed command and its run.
\<close>

definition run_training :: "worker_env \<Rightarrow> (run_result option \<times> event list) option" where
  "run_training env =
     (case os_mkdir env TRAIN_DATA_DIR of
        Some e \<Rightarrow> Some (Some (Uncaught e), [])
      | None \<Rightarrow>
     (case os_mkdir env ''.rasa'' of
        Some e \<Rightarrow> Some (Some (Uncaught e), [])
      | None \<Rightarrow>
     (let st = make_storage env;
          remote_train_data_path = w_S3_MODEL_DIR env @ ''/train_data.yml'';
          log1 = [Printed (''Downloading train data '' @ remote_train_data_path)] in
      case download_file env st remote_train_data_path train_data_path of
        Some e \<Rightarrow> Some (Some (Uncaught e), log1)
      | None \<Rightarrow>
     (let log2 = log1 @ [Printed ''Train data downloaded''] @ restore_cache env st
                   @ [Ran (rasa_cmd env)] in
      case subprocess_run env (rasa_cmd env) of
        Inl e \<Rightarrow> Some (Some (Uncaught e), log2)
      | Inr returncode \<Rightarrow>
          if returncode \<noteq> 0 then Some (Some (Exit returncode), log2)
          else
            (let model_path' =
                   (if \<not> path_exists env model_path then model_path @ ''.tar.gz''
                    else model_path) in
             case upload_file env st model_path' (w_S3_MODEL_DIR env @ ''/model.tar.gz'') of
               None \<Rightarrow> None
             | Some (Some e, l) \<Rightarrow> Some (Some (Uncaught e), log2 @ l)
             | Some (None, l) \<Rightarrow> Some (None, log2 @ l))))))"

text \<open>Lines 128 to 130 of \<^verbatim>\<open>main\<close>: the cache step after training.\<close>

definition upload_cache :: "worker_env \<Rightarrow> storage \<Rightarrow> (py_error option \<times> event list) option" where
  "upload_cache env st =
     (case w_S3_CACHE_PATH env of
        None \<Rightarrow> Some (None, [])
      | Some cache_path \<Rightarrow>
          if cache_path \<noteq> [] \<and> path_exists env local_cache_dir then
            (case make_archive env ''cache'' local_cache_dir of
               Some e \<Rightarrow> Some (Some e, [])
             | None \<Rightarrow> upload_file env st ''cache.tar.gz'' cache_path)
          else Some (None, []))"

definition main :: "worker_env \<Rightarrow> (run_result \<times> event list) option" where
  "main env =
     (case run_training env of
        None \<Rightarrow> None
      | Some (Some r, log) \<Rightarrow> Some (r, log)
      | Some (None, log) \<Rightarrow>
          (case upload_cache env (make_storage env) of
             None \<Rightarrow> None
           | Some (Some e, l) \<Rightarrow> Some (Uncaught e, log @ l)
           | Some (None, l) \<Rightarrow> Some (Finished, log @ l)))"

text \<open>
  A worker on object storage with a cache path, in which every outside call returns,
  training exits with 0 and every path asked for exists.
\<close>

definition quiet_env :: worker_env where
  "quiet_env =
     \<lparr> w_LOCAL_VOLUME_PATH = None, w_S3_MODEL_DIR = ''models/p1/abc'',
       w_S3_CACHE_PATH = Some ''models-cache/p1/cache.tar.gz'', w_RASA_EXTRA_ARGS = None,
       os_mkdir = (\<lambda>p. None), os_makedirs = (\<lambda>p. None), shutil_copy = (\<lambda>src dst. None),
       s3_download_file = (\<lambda>key dst. None), s3_upload_file = (\<lambda>src key n. None),
       unpack_archive = (\<lambda>a d. None), make_archive = (\<lambda>b d. None),
       subprocess_run = (\<lambda>cmd. Inr 0), path_exists = (\<lambda>p. True) \<rparr>"

text \<open>The same worker when \<^verbatim>\<open>shutil.make_archive\<close> raises.\<close>

definition archive_fails_env :: worker_env where
  "archive_fails_env =
     quiet_env\<lparr>make_archive := (\<lambda>base_name root_dir. Some (OtherError ''tar''))\<rparr>"

text \<open>The same worker when the cache is not in the bucket: its download raises.\<close>

definition cache_missing_env :: worker_env where
  "cache_missing_env =
     quiet_env\<lparr>s3_download_file :=
       (\<lambda>key dst. if key = ''models-cache/p1/cache.tar.gz'' then Some (OtherError ''404'')
                   else None)\<rparr>"

text \<open>A worker on a local volume whose every \<^verbatim>\<open>shutil.copy\<close> raises.\<close>

definition copy_fails_env :: worker_env where
  "copy_fails_env =
     quiet_env\<lparr>w_LOCAL_VOLUME_PATH := Some ''/mnt'',
               shutil_copy := (\<lambda>src dst. Some (OtherError ''disk full''))\<rparr>"

text \<open>A worker whose first two S3 uploads of any file raise.\<close>

definition flaky_s3_env :: worker_env where
  "flaky_s3_env =
     quiet_env\<lparr>s3_upload_file :=
       (\<lambda>src key k. if k < 2 then Some (OtherError ''503'') else None)\<rparr>"

section \<open>Properties of the status derivation\<close>

lemma truthy_int_count_pos: "count_valid x \<Longrightarrow> truthy_int x = count_pos x"
  by (auto simp: truthy_int_def count_pos_def count_valid_def split: option.splits)

text \<open>
  Claim C1. For every job id, \<open>status\<close> returns \<open>none\<close> when the orchestrator reports the
  Job absent (a 404 on the read), and when the read returns a Job whose counters are
  counts, the status follows the priority order: succeeded above zero gives \<open>success\<close>
  (whatever the active count), else active above zero gives \<open>training\<close>, else failed
  above zero gives \<open>failed\<close>, else \<open>none\<close>.
\<close>

theorem status_priority_order:
  "(read_namespaced_job c (job_name cfg job_id) = Inl (ApiException 404)
      \<longrightarrow> status cfg c job_id = Inr none)
   \<and> (read_namespaced_job c (job_name cfg job_id) = Inr job \<and> counters_valid (job_status job)
      \<longrightarrow> status cfg c job_id = Inr (status_of_counters (job_status job))
          \<and> (count_pos (succeeded (job_status job)) \<longrightarrow> status cfg c job_id = Inr success))"
  by (auto simp: status_def get_job_def status_of_counters_def counters_valid_def
      truthy_int_count_pos Let_def)

theorem status_priority_order_witness:
  "status default_config
     \<lparr>jobs = [''et-job-a'' \<mapsto> \<lparr>job_status = \<lparr>active = Some 1, succeeded = Some 1, failed = None\<rparr>,
                               job_labels = []\<rparr>],
      read_fault = None, delete_fault = None, delete_requests = []\<rparr> ''a'' = Inr success
   \<and> status default_config
     \<lparr>jobs = Map.empty, read_fault = None, delete_fault = None, delete_requests = []\<rparr> ''a''
       = Inr none"
  using status_priority_order [of
      "\<lparr>jobs = [''et-job-a'' \<mapsto> \<lparr>job_status = \<lparr>active = Some 1, succeeded = Some 1, failed = None\<rparr>,
                               job_labels = []\<rparr>],
        read_fault = None, delete_fault = None, delete_requests = []\<rparr>"
      default_config "''a''"
      "\<lparr>job_status = \<lparr>active = Some 1, succeeded = Some 1, failed = None\<rparr>, job_labels = []\<rparr>"]
    status_priority_order [of
      "\<lparr>jobs = Map.empty, read_fault = None, delete_fault = None, delete_requests = []\<rparr>"
      default_config "''a''" "\<lparr>job_status = \<lparr>active = None, succeeded = None, failed = None\<rparr>, job_labels = []\<rparr>"]
  by (simp add: read_namespaced_job_def job_name_def default_config_def counters_valid_def
      count_valid_def count_pos_def status_of_counters_def)

section \<open>Properties of dict_set\<close>

lemma list_index_less: "list_index n i = Some j \<Longrightarrow> j < n"
  by (auto simp: list_index_def split: if_splits)

lemma dict_set_keys_Cons:
  "ks \<noteq> [] \<Longrightarrow> dict_set_keys d (k # ks) v =
     (case descend d k of Inl e \<Rightarrow> Inl e
      | Inr child \<Rightarrow> (case dict_set_keys child ks v of Inl e \<Rightarrow> Inl e
           | Inr child' \<Rightarrow> assign d k child'))"
  by (cases ks) auto










lemma map_of_update_other: "k' \<noteq> k \<Longrightarrow> map_of (AList.update k v m) k' = map_of m k'"
  by (simp add: update_conv')


lemmas py_int_eval = py_int_def parse_literal_def int_max_str_digits_def strip_def is_space_def
  is_digit_def digit_val_def

text \<open>
  \<^verbatim>\<open>int\<close> at the edge of its blanks: the separator 28 is no blank, the code points 133
  and 160 are; an underscore stands between two digits only.
\<close>

lemma py_int_blanks:
  "py_int [CHR 0x1C, CHR ''1''] = None"
  "py_int [CHR ''1'', CHR 0x1F] = None"
  "py_int [CHR 0x85, CHR ''1''] = Some 1"
  "py_int [CHR ''1'', CHR 0xA0] = Some 1"
  "py_int [CHR 0x09, CHR ''-'', CHR ''1'', CHR ''_'', CHR ''0'', CHR 0x0A] = Some (- 10)"
  "py_int ''1__0'' = None"
  "py_int ''_1'' = None"
  "py_int ''1_'' = None"
  "py_int ''- 1'' = None"
  by (simp_all add: py_int_eval)

lemma parse_literal_limit:
  "int_max_str_digits < int (length (filter is_digit s)) \<Longrightarrow> py_int s = None"
proof -
  assume a: "int_max_str_digits < int (length (filter is_digit s))"
  have sub: "\<And>t. length (filter is_digit (dropWhile is_space t)) = length (filter is_digit t)"
  proof -
    fix t show "length (filter is_digit (dropWhile is_space t)) = length (filter is_digit t)"
      by (induction t) (auto simp: is_space_def is_digit_def Let_def)
  qed
  have "length (filter is_digit (strip s)) = length (filter is_digit s)"
    unfolding strip_def by (simp add: sub flip: rev_filter)
  with a have l: "int_max_str_digits < int (length (filter is_digit (strip s)))" by simp
  show "py_int s = None"
  proof (cases "strip s")
    case Nil
    then show ?thesis by (simp add: py_int_def)
  next
    case (Cons c cs)
    have "\<not> is_digit (CHR ''-'')" "\<not> is_digit (CHR ''+'')" by (simp_all add: is_digit_def)
    with l Cons show ?thesis by (auto simp: py_int_def parse_literal_def)
  qed
qed



text \<open>
  Claim C7. On a document whose \<open>spec.containers\<close> is a sequence starting with a mapping,
  patching \<open>spec.containers.0.image\<close> succeeds, the first container then has the value
  under \<open>image\<close> and every other key as before, the other containers are the same, and
  every other key of \<open>spec\<close> and of the document keeps its value and its position.
\<close>

theorem dict_set_image_frame:
  assumes "map_of doc (KStr ''spec'') = Some (YDict sp)"
    and "map_of sp (KStr ''containers'') = Some (YList (YDict c # cs))"
  shows "\<exists>doc' sp' c'.
      dict_set (YDict doc) ''spec.containers.0.image'' v = Inr (YDict doc')
    \<and> map fst doc' = map fst doc
    \<and> map_of doc' (KStr ''spec'') = Some (YDict sp')
    \<and> (\<forall>k. k \<noteq> KStr ''spec'' \<longrightarrow> map_of doc' k = map_of doc k)
    \<and> map fst sp' = map fst sp
    \<and> map_of sp' (KStr ''containers'') = Some (YList (YDict c' # cs))
    \<and> (\<forall>k. k \<noteq> KStr ''containers'' \<longrightarrow> map_of sp' k = map_of sp k)
    \<and> map_of c' (KStr ''image'') = Some v
    \<and> (\<forall>k. k \<noteq> KStr ''image'' \<longrightarrow> map_of c' k = map_of c k)"
proof -
  let ?c' = "AList.update (KStr ''image'') v c"
  let ?sp' = "AList.update (KStr ''containers'') (YList (YDict ?c' # cs)) sp"
  let ?doc' = "AList.update (KStr ''spec'') (YDict ?sp') doc"
  have keys: "py_split (CHR ''.'') ''spec.containers.0.image'' = [''spec'', ''containers'', ''0'', ''image'']"
    by simp
  have ints: "py_int ''spec'' = None" "py_int ''containers'' = None" "py_int ''0'' = Some 0"
    "py_int ''image'' = None"
    by (simp_all add: py_int_eval)
  have "dict_set (YDict doc) ''spec.containers.0.image'' v = Inr (YDict ?doc')"
    unfolding dict_set_def keys using assms
    by (simp add: descend_def assign_def ints list_index_def)
  moreover have "map fst ?doc' = map fst doc" "map fst ?sp' = map fst sp"
    using assms by (auto simp: update_keys dest!: map_of_SomeD intro: rev_image_eqI)
  ultimately show ?thesis
    by (intro exI [of _ ?doc'] exI [of _ ?sp'] exI [of _ ?c']) (simp add: update_conv')
qed


theorem dict_set_image_frame_witness:
  "map_of [(KStr ''kind'', YStr ''Pod''),
           (KStr ''spec'', YDict [(KStr ''containers'',
              YList [YDict [(KStr ''name'', YStr ''c''), (KStr ''image'', YStr ''old'')],
                     YDict [(KStr ''name'', YStr ''s'')]])])] (KStr ''spec'')
     = Some (YDict [(KStr ''containers'',
              YList [YDict [(KStr ''name'', YStr ''c''), (KStr ''image'', YStr ''old'')],
                     YDict [(KStr ''name'', YStr ''s'')]])])
   \<and> dict_set (YDict [(KStr ''kind'', YStr ''Pod''),
           (KStr ''spec'', YDict [(KStr ''containers'',
              YList [YDict [(KStr ''name'', YStr ''c''), (KStr ''image'', YStr ''old'')],
                     YDict [(KStr ''name'', YStr ''s'')]])])])
        ''spec.containers.0.image'' (YStr ''img:tag'')
     = Inr (YDict [(KStr ''kind'', YStr ''Pod''),
           (KStr ''spec'', YDict [(KStr ''containers'',
              YList [YDict [(KStr ''name'', YStr ''c''), (KStr ''image'', YStr ''img:tag'')],
                     YDict [(KStr ''name'', YStr ''s'')]])])])"
proof -
  have ints: "py_int ''spec'' = None" "py_int ''containers'' = None" "py_int ''0'' = Some 0"
    "py_int ''image'' = None"
    by (simp_all add: py_int_eval)
  show ?thesis
    using dict_set_image_frame [of
        "[(KStr ''kind'', YStr ''Pod''),
           (KStr ''spec'', YDict [(KStr ''containers'',
              YList [YDict [(KStr ''name'', YStr ''c''), (KStr ''image'', YStr ''old'')],
                     YDict [(KStr ''name'', YStr ''s'')]])])]"
        "[(KStr ''containers'',
              YList [YDict [(KStr ''name'', YStr ''c''), (KStr ''image'', YStr ''old'')],
                     YDict [(KStr ''name'', YStr ''s'')]])]"
        "[(KStr ''name'', YStr ''c''), (KStr ''image'', YStr ''old'')]"
        "[YDict [(KStr ''name'', YStr ''s'')]]" "YStr ''img:tag''"]
    by (simp add: dict_set_def descend_def assign_def ints list_index_def)
qed

section \<open>Properties of the resilient upload\<close>

lemma upload_loop_returns_success:
  assumes "upload_loop att l s m n p log = Some y"
  shows "\<exists>k\<ge>n. att k = None"
proof (rule upload_loop.raw_induct [OF _ assms], goal_cases)
  case (1 f att l s m n p log y)
  show ?case
  proof (cases "att n")
    case None
    then show ?thesis by blast
  next
    case (Some e)
    with 1(2) have "f att l s m (Suc n) (next_pause m p)
        ((log @ [Printed (''Uploading '' @ l @ '' to '' @ s)]) @ [Traceback e, Slept p]) = Some y"
      by (simp add: Let_def)
    from 1(1) [OF this] have "\<exists>k\<ge>Suc n. att k = None" .
    then show ?thesis using Suc_leD by blast
  qed
qed

lemma upload_loop_first_success:
  "(\<forall>i<k. att (n + i) \<noteq> None) \<Longrightarrow> att (n + k) = None \<Longrightarrow>
   upload_loop att l s m n p log =
     Some (log @ retry_events att l s m n p k
           @ [Printed (''Uploading '' @ l @ '' to '' @ s), Printed (l @ '' uploaded'')])"
proof (induction k arbitrary: n p log)
  case 0
  then show ?case by (subst upload_loop.simps) (simp add: retry_events_def)
next
  case (Suc k)
  from Suc.prems(1) have "att n \<noteq> None" by (metis add.right_neutral zero_less_Suc)
  then obtain e where e: "att n = Some e" by blast
  have a: "\<forall>i<k. att (Suc n + i) \<noteq> None" using Suc.prems(1) by (metis Suc_less_eq add_Suc_shift)
  have b: "att (Suc n + k) = None" using Suc.prems(2) by simp
  have ev: "retry_events att l s m n p (Suc k) =
      [Printed (''Uploading '' @ l @ '' to '' @ s), Traceback e, Slept p]
        @ retry_events att l s m (Suc n) (next_pause m p) k"
    unfolding retry_events_def
    by (simp add: upt_conv_Cons map_Suc_upt [symmetric] e comp_def del: upt_Suc)
  show ?case
    by (subst upload_loop.simps) (simp add: e Let_def Suc.IH [OF a b] ev)
qed

lemma sleeps_append: "sleeps (xs @ ys) = sleeps xs @ sleeps ys"
  by (induction xs rule: sleeps.induct) auto

lemma failures_append: "failures (xs @ ys) = failures xs @ failures ys"
  by (induction xs rule: failures.induct) auto

lemma sleeps_retry_events:
  "sleeps (retry_events att l s m n p k) = map (pause_seq m p) [0..<k]"
  by (induction k) (simp_all add: retry_events_def sleeps_append)

lemma failures_retry_events:
  "failures (retry_events att l s m n p k) = map (\<lambda>i. the (att (n + i))) [0..<k]"
  by (induction k) (simp_all add: retry_events_def failures_append)

lemma pause_seq_doubling:
  "p = 10 * 2 ^ j \<Longrightarrow> j \<le> 8 \<Longrightarrow>
     pause_seq 2560 p i = (if i + j \<le> 8 then 10 * 2 ^ (i + j) else 2560)"
proof (induction i arbitrary: p j)
  case 0
  then show ?case by simp
next
  case (Suc i)
  show ?case
  proof (cases "j < 8")
    case True
    then have "(2::int) ^ j \<le> 2 ^ 7" by (intro power_increasing) auto
    then have "p < 2560" using Suc.prems by simp
    then have np: "next_pause 2560 p = 10 * 2 ^ (Suc j)" using Suc.prems by (simp add: next_pause_def)
    have "pause_seq 2560 (next_pause 2560 p) i = (if i + Suc j \<le> 8 then 10 * 2 ^ (i + Suc j) else 2560)"
      using True by (intro Suc.IH [OF np]) simp
    then show ?thesis by simp
  next
    case False
    with Suc.prems have j: "j = 8" by simp
    then have p: "p = 2560" using Suc.prems by simp
    have np: "next_pause 2560 p = 10 * 2 ^ j" using p j by (simp add: next_pause_def)
    have "pause_seq 2560 (next_pause 2560 p) i = (if i + j \<le> 8 then 10 * 2 ^ (i + j) else 2560)"
      using j by (intro Suc.IH [OF np]) simp
    then show ?thesis using j by auto
  qed
qed

lemma pause_seq_default: "pause_seq 2560 10 i = (if i \<le> 8 then 10 * 2 ^ i else 2560)"
  using pause_seq_doubling [of 10 0 i] by simp


lemma upload_to_s3_first_success:
  assumes "att n = None" and "\<forall>i<n. att i \<noteq> None"
  shows "upload_to_s3 att l s p m =
     Some (retry_events att l s m 0 p n
           @ [Printed (''Uploading '' @ l @ '' to '' @ s), Printed (l @ '' uploaded'')])"
  using upload_loop_first_success [of n att 0 l s m p "[]"] assms
  by (simp add: upload_to_s3_def)

lemma upload_to_s3_returns_iff:
  "(\<exists>log. upload_to_s3 att l s p m = Some log) \<longleftrightarrow> (\<exists>n. att n = None)"
proof
  assume "\<exists>log. upload_to_s3 att l s p m = Some log"
  then show "\<exists>n. att n = None"
    unfolding upload_to_s3_def using upload_loop_returns_success by blast
next
  assume ex: "\<exists>n. att n = None"
  define n where "n = (LEAST n. att n = None)"
  have "att n = None" unfolding n_def using ex by (rule LeastI_ex)
  moreover have "\<forall>i<n. att i \<noteq> None" unfolding n_def using not_less_Least by blast
  ultimately show "\<exists>log. upload_to_s3 att l s p m = Some log"
    using upload_to_s3_first_success by blast
qed

lemma retry_events_Suc:
  "att n = Some e \<Longrightarrow>
   retry_events att l s m n p (Suc k) =
     [Printed (''Uploading '' @ l @ '' to '' @ s), Traceback e, Slept p]
       @ retry_events att l s m (Suc n) (next_pause m p) k"
  unfolding retry_events_def
  by (simp add: upt_conv_Cons map_Suc_upt [symmetric] comp_def del: upt_Suc)

lemma upload_loop_after_failures:
  "(\<forall>i<k. att (n + i) \<noteq> None) \<Longrightarrow>
   upload_loop att l s m n p log =
     upload_loop att l s m (n + k) (pause_seq m p k) (log @ retry_events att l s m n p k)"
proof (induction k arbitrary: n p log)
  case 0
  then show ?case by (simp add: retry_events_def)
next
  case (Suc k)
  from Suc.prems have "att n \<noteq> None" by (metis add.right_neutral zero_less_Suc)
  then obtain e where e: "att n = Some e" by blast
  have a: "\<forall>i<k. att (Suc n + i) \<noteq> None" using Suc.prems by (metis Suc_less_eq add_Suc_shift)
  have "upload_loop att l s m n p log =
      upload_loop att l s m (Suc n) (next_pause m p)
        (log @ [Printed (''Uploading '' @ l @ '' to '' @ s), Traceback e, Slept p])"
    by (subst upload_loop.simps) (simp add: e Let_def)
  also have "\<dots> = upload_loop att l s m (Suc n + k) (pause_seq m (next_pause m p) k)
        ((log @ [Printed (''Uploading '' @ l @ '' to '' @ s), Traceback e, Slept p])
           @ retry_events att l s m (Suc n) (next_pause m p) k)"
    by (rule Suc.IH [OF a])
  finally show ?case by (simp add: retry_events_Suc [of att n e] e)
qed

lemma upload_to_s3_after_failures:
  "(\<forall>i<k. att i \<noteq> None) \<Longrightarrow>
   upload_to_s3 att l s p m =
     upload_loop att l s m k (pause_seq m p k) (retry_events att l s m 0 p k)"
  using upload_loop_after_failures [of k att 0 l s m p "[]"] by (simp add: upload_to_s3_def)

text \<open>
  Claim C3. With the pause of 10 and the cap of 2560 that \<^verbatim>\<open>upload_to_s3\<close> is called
  with, the loop returns exactly when some attempt succeeds; when attempt \<open>n\<close> (counted
  from 0) is the first to succeed, all \<open>n\<close> failures before it were logged and followed by
  a sleep and another attempt, whatever \<open>n\<close> is, and the sleeps are 10, 20, ..., doubling
  up to 2560 at the ninth and staying there. Whether or not an attempt ever succeeds, once
  the first \<open>k\<close> attempts have failed the loop is at its next attempt, with these \<open>k\<close>
  failures logged and the pause that the schedule gives.
\<close>

theorem upload_to_s3_retry_schedule:
  "((\<exists>log. upload_to_s3 att l s 10 2560 = Some log) \<longleftrightarrow> (\<exists>n. att n = None))
   \<and> (\<forall>n. att n = None \<and> (\<forall>i<n. att i \<noteq> None) \<longrightarrow>
         (\<exists>log. upload_to_s3 att l s 10 2560 = Some log
            \<and> failures log = map (\<lambda>i. the (att i)) [0..<n]
            \<and> sleeps log = map (\<lambda>i. if i \<le> 8 then 10 * 2 ^ i else 2560) [0..<n]))
   \<and> (\<forall>k. (\<forall>i<k. att i \<noteq> None) \<longrightarrow>
         upload_to_s3 att l s 10 2560
           = upload_loop att l s 2560 k (if k \<le> 8 then 10 * 2 ^ k else 2560)
               (retry_events att l s 2560 0 10 k))"
proof (intro conjI allI impI)
  show "(\<exists>log. upload_to_s3 att l s 10 2560 = Some log) \<longleftrightarrow> (\<exists>n. att n = None)"
    by (rule upload_to_s3_returns_iff)
next
  fix n assume a: "att n = None \<and> (\<forall>i<n. att i \<noteq> None)"
  let ?log = "retry_events att l s 2560 0 10 n
           @ [Printed (''Uploading '' @ l @ '' to '' @ s), Printed (l @ '' uploaded'')]"
  have "upload_to_s3 att l s 10 2560 = Some ?log"
    using a by (intro upload_to_s3_first_success) auto
  moreover have "failures ?log = map (\<lambda>i. the (att i)) [0..<n]"
    by (simp add: failures_append failures_retry_events)
  moreover have "sleeps ?log = map (\<lambda>i. if i \<le> 8 then 10 * 2 ^ i else 2560) [0..<n]"
    by (simp add: sleeps_append sleeps_retry_events pause_seq_default)
  ultimately show "\<exists>log. upload_to_s3 att l s 10 2560 = Some log
            \<and> failures log = map (\<lambda>i. the (att i)) [0..<n]
            \<and> sleeps log = map (\<lambda>i. if i \<le> 8 then 10 * 2 ^ i else 2560) [0..<n]"
    by blast
next
  fix k assume "\<forall>i<k. att i \<noteq> None"
  then show "upload_to_s3 att l s 10 2560
           = upload_loop att l s 2560 k (if k \<le> 8 then 10 * 2 ^ k else 2560)
               (retry_events att l s 2560 0 10 k)"
    using upload_to_s3_after_failures [of k att l s 10 2560]
    by (simp only: pause_seq_default)
qed

theorem upload_to_s3_retry_schedule_witness:
  "(\<lambda>k. if k < 11 then Some (OtherError ''down'') else None) (11::nat) = None
   \<and> (\<exists>log. upload_to_s3 (\<lambda>k. if k < 11 then Some (OtherError ''down'') else None)
               ''model.tar.gz'' ''models/p1/abc/model.tar.gz'' 10 2560 = Some log
          \<and> failures log = replicate 11 (OtherError ''down'')
          \<and> sleeps log = [10, 20, 40, 80, 160, 320, 640, 1280, 2560, 2560, 2560])"
proof -
  let ?att = "\<lambda>k::nat. if k < 11 then Some (OtherError ''down'') else None"
  have upt: "[0..<11] = [0, 1, 2, 3, 4, 5, 6, 7, 8, 9, 10 :: nat]"
    by (simp add: upt_conv_Cons)
  have h: "?att 11 = None \<and> (\<forall>i<11. ?att i \<noteq> None)" by simp
  from upload_to_s3_retry_schedule
      [of ?att "''model.tar.gz''" "''models/p1/abc/model.tar.gz''",
       THEN conjunct2, THEN conjunct1, rule_format, OF h]
  obtain log where log:
    "upload_to_s3 ?att ''model.tar.gz'' ''models/p1/abc/model.tar.gz'' 10 2560 = Some log"
    "failures log = map (\<lambda>i. the (?att i)) [0..<11]"
    "sleeps log = map (\<lambda>i. if i \<le> 8 then 10 * 2 ^ i else 2560) [0..<11]"
    by blast
  have "failures log = replicate 11 (OtherError ''down'')"
    unfolding log(2) upt by (simp add: numeral_eq_Suc)
  moreover have "sleeps log = [10, 20, 40, 80, 160, 320, 640, 1280, 2560, 2560, 2560]"
    unfolding log(3) upt by simp
  ultimately show ?thesis using log(1) by simp
qed

section \<open>Properties of the storage variants and of the cache step\<close>

lemma upload_to_s3_first_try:
  "att 0 = None \<Longrightarrow> upload_to_s3 att l s p m =
     Some [Printed (''Uploading '' @ l @ '' to '' @ s), Printed (l @ '' uploaded'')]"
  using upload_to_s3_first_success [of att 0 l s p m] by (simp add: retry_events_def)

lemma upload_file_S3_returns_iff:
  "(\<exists>res. upload_file env S3Storage l r = Some res) \<longleftrightarrow> (\<exists>n. s3_upload_file env l r n = None)"
  using upload_to_s3_returns_iff [of "s3_upload_file env l r" l r 10 2560]
  by (auto simp: upload_file_def)

lemma upload_file_S3_no_error: "upload_file env S3Storage l r = Some (x, log) \<Longrightarrow> x = None"
  by (auto simp: upload_file_def)

lemma upload_file_Local:
  "upload_file env (LocalStorage b) l r =
     Some (case os_makedirs env (dirname (b @ ''/'' @ r)) of
             Some e \<Rightarrow> Some e
           | None \<Rightarrow> shutil_copy env l (b @ ''/'' @ r), [])"
  by (simp add: upload_file_def Let_def split: option.splits)

text \<open>
  Claim C4, as the claim states it, fails: on the local-volume variant a failing copy
  leaves \<^verbatim>\<open>upload_file\<close> as the exception, with nothing logged and no second attempt.
\<close>

theorem local_upload_propagates_counterexample:
  "upload_file copy_fails_env (make_storage copy_fails_env)
     ''/app/model.tar.gz'' ''models/p1/abc/model.tar.gz''
   = Some (Some (OtherError ''disk full''), [])"
  by (simp add: upload_file_def copy_fails_env_def quiet_env_def make_storage_def
      LocalStorage_init_def truthy_str_def)

text \<open>
  Claim C4, amended. The retry protocol is that of the object-storage variant only:
  there no exception leaves \<^verbatim>\<open>upload_file\<close>, the call returns exactly when some attempt
  succeeds, and every failed attempt before the first success is logged and followed by
  a sleep and a retry. The local-volume variant makes one attempt, \<^verbatim>\<open>makedirs\<close> and then
  the copy, logs nothing, and the exception of either leaves \<^verbatim>\<open>upload_file\<close>.
\<close>

theorem upload_file_variants:
  "(\<forall>e log. upload_file env S3Storage l r \<noteq> Some (Some e, log))
   \<and> ((\<exists>res. upload_file env S3Storage l r = Some res) \<longleftrightarrow> (\<exists>n. s3_upload_file env l r n = None))
   \<and> (\<forall>n. s3_upload_file env l r n = None \<and> (\<forall>i<n. s3_upload_file env l r i \<noteq> None) \<longrightarrow>
         (\<exists>log. upload_file env S3Storage l r = Some (None, log)
            \<and> failures log = map (\<lambda>i. the (s3_upload_file env l r i)) [0..<n]
            \<and> length (sleeps log) = n))
   \<and> upload_file env (LocalStorage b) l r =
       Some (case os_makedirs env (dirname (b @ ''/'' @ r)) of
               Some e \<Rightarrow> Some e
             | None \<Rightarrow> shutil_copy env l (b @ ''/'' @ r), [])"
proof (intro conjI allI impI)
  fix e log
  show "upload_file env S3Storage l r \<noteq> Some (Some e, log)"
    using upload_file_S3_no_error [of env l r "Some e" log] by auto
next
  show "(\<exists>res. upload_file env S3Storage l r = Some res) \<longleftrightarrow> (\<exists>n. s3_upload_file env l r n = None)"
    by (rule upload_file_S3_returns_iff)
next
  fix n
  assume a: "s3_upload_file env l r n = None \<and> (\<forall>i<n. s3_upload_file env l r i \<noteq> None)"
  let ?att = "s3_upload_file env l r"
  let ?log = "retry_events ?att l r 2560 0 10 n
           @ [Printed (''Uploading '' @ l @ '' to '' @ r), Printed (l @ '' uploaded'')]"
  have "upload_to_s3 ?att l r 10 2560 = Some ?log"
    using a by (intro upload_to_s3_first_success) auto
  then have "upload_file env S3Storage l r = Some (None, ?log)"
    by (simp add: upload_file_def)
  moreover have "failures ?log = map (\<lambda>i. the (?att i)) [0..<n]"
    by (simp add: failures_append failures_retry_events)
  moreover have "length (sleeps ?log) = n"
    by (simp add: sleeps_append sleeps_retry_events)
  ultimately show "\<exists>log. upload_file env S3Storage l r = Some (None, log)
            \<and> failures log = map (\<lambda>i. the (s3_upload_file env l r i)) [0..<n]
            \<and> length (sleeps log) = n"
    by blast
next
  show "upload_file env (LocalStorage b) l r =
       Some (case os_makedirs env (dirname (b @ ''/'' @ r)) of
               Some e \<Rightarrow> Some e
             | None \<Rightarrow> shutil_copy env l (b @ ''/'' @ r), [])"
    by (rule upload_file_Local)
qed

theorem upload_file_variants_witness:
  "s3_upload_file flaky_s3_env ''cache.tar.gz'' ''c/cache.tar.gz'' 2 = None
   \<and> (\<exists>log. upload_file flaky_s3_env S3Storage ''cache.tar.gz'' ''c/cache.tar.gz'' = Some (None, log)
        \<and> failures log = [OtherError ''503'', OtherError ''503'']
        \<and> length (sleeps log) = 2)"
proof -
  let ?env = flaky_s3_env
  have upt: "[0..<2] = [0, 1 :: nat]" by (simp add: upt_conv_Cons)
  have h: "s3_upload_file ?env ''cache.tar.gz'' ''c/cache.tar.gz'' 2 = None
      \<and> (\<forall>i<2. s3_upload_file ?env ''cache.tar.gz'' ''c/cache.tar.gz'' i \<noteq> None)"
    by (simp add: flaky_s3_env_def quiet_env_def)
  from upload_file_variants [of ?env "''cache.tar.gz''" "''c/cache.tar.gz''" "''/mnt''",
      THEN conjunct2, THEN conjunct2, THEN conjunct1, rule_format, OF h]
  obtain log where log:
    "upload_file ?env S3Storage ''cache.tar.gz'' ''c/cache.tar.gz'' = Some (None, log)"
    "failures log = map (\<lambda>i. the (s3_upload_file ?env ''cache.tar.gz'' ''c/cache.tar.gz'' i)) [0..<2]"
    "length (sleeps log) = 2"
    by blast
  have "failures log = [OtherError ''503'', OtherError ''503'']"
    unfolding log(2) upt by (simp add: flaky_s3_env_def quiet_env_def)
  then show ?thesis using log(1,3) h by blast
qed

lemma main_after_training:
  "run_training env = Some (None, log) \<Longrightarrow>
   main env =
     (case upload_cache env (make_storage env) of
        None \<Rightarrow> None
      | Some (Some e, l) \<Rightarrow> Some (Uncaught e, log @ l)
      | Some (None, l) \<Rightarrow> Some (Finished, log @ l))"
  by (simp add: main_def)

lemma upload_cache_reached:
  "w_S3_CACHE_PATH env = Some cp \<Longrightarrow> cp \<noteq> [] \<Longrightarrow> path_exists env local_cache_dir \<Longrightarrow>
   upload_cache env st =
     (case make_archive env ''cache'' local_cache_dir of
        Some e \<Rightarrow> Some (Some e, [])
      | None \<Rightarrow> upload_file env st ''cache.tar.gz'' cp)"
  by (simp add: upload_cache_def)

text \<open>
  The cache download of lines 95 to 104 is guarded: when the download or the unpacking
  raises, the failure is printed and the run goes on to its end.
\<close>

lemma cache_download_failure_ignored:
  "main cache_missing_env =
     Some (Finished,
       [Printed ''Downloading train data models/p1/abc/train_data.yml'',
        Printed ''Train data downloaded'',
        Printed ''Trying to download cache models-cache/p1/cache.tar.gz'',
        Printed ''Error downloading models-cache/p1/cache.tar.gz'',
        Traceback (OtherError ''404''),
        Ran [''rasa'', ''train'', ''-c'', ''data/train_data.yml'', ''-d'', ''data/train_data.yml'',
             ''--fixed-model-name'', ''/app/model.tar.gz''],
        Printed ''Uploading /app/model.tar.gz to models/p1/abc/model.tar.gz'',
        Printed ''/app/model.tar.gz uploaded'',
        Printed ''Uploading cache.tar.gz to models-cache/p1/cache.tar.gz'',
        Printed ''cache.tar.gz uploaded''])"
  by (simp add: main_def run_training_def restore_cache_def rasa_cmd_def upload_cache_def
      upload_file_def make_storage_def download_file_def cache_missing_env_def quiet_env_def
      truthy_str_def upload_to_s3_first_try train_data_path_def TRAIN_DATA_DIR_def
      model_path_def local_cache_dir_def Let_def)

lemma restore_cache_unpack_failure_ignored:
  "restore_cache (quiet_env\<lparr>unpack_archive := (\<lambda>a d. Some (OtherError ''bad archive''))\<rparr>) S3Storage =
     [Printed ''Trying to download cache models-cache/p1/cache.tar.gz'',
      Printed ''Cache downloaded'', Printed ''Extracting cache'',
      Printed ''Error downloading models-cache/p1/cache.tar.gz'',
      Traceback (OtherError ''bad archive'')]"
  by (simp add: restore_cache_def download_file_def quiet_env_def Let_def)

text \<open>
  The cache step of lines 128 to 130 has no such guard: once training and the upload of
  the model are done, a cache path is set and the cache directory exists, the exception
  of \<^verbatim>\<open>make_archive\<close> leaves \<^verbatim>\<open>main\<close>.
\<close>

lemma cache_archive_failure_propagates:
  assumes "run_training env = Some (None, log)" and "w_S3_CACHE_PATH env = Some cp" and "cp \<noteq> []"
    and "path_exists env local_cache_dir" and "make_archive env ''cache'' local_cache_dir = Some e"
  shows "main env = Some (Uncaught e, log)"
  using assms by (simp add: main_after_training upload_cache_reached)

text \<open>
  Claim C5 says that a failure of the cache step after training is logged and ignored
  and never changes how the worker ends. The code does not do so. On object storage with
  a cache path, when training has exited with 0, the model is uploaded and the cache
  directory exists, a \<^verbatim>\<open>make_archive\<close> that raises ends \<^verbatim>\<open>main\<close> with that exception
  uncaught: nothing about the failure is printed by \<^verbatim>\<open>main\<close>, and the last thing
  printed is the upload of the model.
\<close>

theorem cache_archive_failure_fails_run:
  "main archive_fails_env =
     Some (Uncaught (OtherError ''tar''),
       [Printed ''Downloading train data models/p1/abc/train_data.yml'',
        Printed ''Train data downloaded'',
        Printed ''Trying to download cache models-cache/p1/cache.tar.gz'',
        Printed ''Cache downloaded'', Printed ''Extracting cache'',
        Ran [''rasa'', ''train'', ''-c'', ''data/train_data.yml'', ''-d'', ''data/train_data.yml'',
             ''--fixed-model-name'', ''/app/model.tar.gz''],
        Printed ''Uploading /app/model.tar.gz to models/p1/abc/model.tar.gz'',
        Printed ''/app/model.tar.gz uploaded''])"
  by (simp add: main_def run_training_def restore_cache_def rasa_cmd_def upload_cache_def
      upload_file_def make_storage_def download_file_def archive_fails_env_def quiet_env_def
      truthy_str_def upload_to_s3_first_try train_data_path_def TRAIN_DATA_DIR_def
      model_path_def local_cache_dir_def Let_def)

section \<open>Properties of the canonical form\<close>









section \<open>What a patch leaves alone\<close>

lemma descend_getitem: "descend d s = getitem d (seg_key s)"
  by (simp add: descend_def getitem_def seg_key_def split: option.splits)

lemma assign_setitem: "assign d s v = setitem d (seg_key s) v"
  by (simp add: assign_def setitem_def seg_key_def split: option.splits)

lemma setitem_getitem:
  assumes "setitem d k v = Inr d'"
  shows "getitem d' k = Inr v"
proof (cases d)
  case (YDict m)
  then show ?thesis using assms
    by (cases k) (auto simp: setitem_def getitem_def update_conv')
next
  case (YList xs)
  then show ?thesis using assms
    by (cases k) (auto simp: setitem_def getitem_def list_index_less split: option.splits)
qed (use assms in \<open>cases k; simp add: setitem_def\<close>)+

lemma setitem_getitem_other:
  assumes "setitem d (KStr a) v = Inr d'" and "k \<noteq> KStr a"
  shows "getitem d' k = getitem d k"
proof (cases d)
  case (YDict m)
  then show ?thesis using assms
    by (cases k) (auto simp: setitem_def getitem_def update_conv')
qed (use assms in \<open>simp_all add: setitem_def\<close>)

lemma dict_set_keys_head:
  "dict_set_keys d (k # ks) v = Inr d' \<Longrightarrow> \<exists>x. assign d k x = Inr d'"
  by (cases ks) (auto split: sum.splits)

lemma dict_set_keys_step:
  assumes "dict_set_keys d (k # ks) v = Inr d'" and "ks \<noteq> []"
  shows "\<exists>ch ch'. descend d k = Inr ch \<and> dict_set_keys ch ks v = Inr ch' \<and> descend d' k = Inr ch'"
proof -
  from assms obtain ch ch' where
    s: "descend d k = Inr ch" "dict_set_keys ch ks v = Inr ch'" "assign d k ch' = Inr d'"
    by (auto simp: dict_set_keys_Cons split: sum.splits)
  from s(3) have "descend d' k = Inr ch'"
    by (simp add: assign_setitem descend_getitem setitem_getitem)
  with s show ?thesis by blast
qed

lemma dict_set_keys_resolve: "dict_set_keys d ks v = Inr d' \<Longrightarrow> resolve d' ks = Inr v"
proof (induction ks arbitrary: d d')
  case Nil
  then show ?case by simp
next
  case (Cons k ks)
  show ?case
  proof (cases "ks = []")
    case True
    with Cons.prems show ?thesis
      by (simp add: assign_setitem descend_getitem setitem_getitem)
  next
    case False
    from dict_set_keys_step [OF Cons.prems False] obtain ch ch' where
      "dict_set_keys ch ks v = Inr ch'" "descend d' k = Inr ch'" by blast
    then show ?thesis using Cons.IH by simp
  qed
qed

lemma dict_set_keys_frame:
  "dict_set_keys d ks v = Inr d' \<Longrightarrow> parts_ways ks qs \<Longrightarrow> resolve d' qs = resolve d qs"
proof (induction ks qs arbitrary: d d' rule: parts_ways.induct)
  case (1 k ks q qs)
  show ?case
  proof (cases "k = q")
    case True
    with "1.prems" have pw: "parts_ways ks qs" by simp
    then have ne: "ks \<noteq> []" by (cases ks) auto
    from dict_set_keys_step [OF "1.prems"(1) ne] obtain ch ch' where
      s: "descend d k = Inr ch" "dict_set_keys ch ks v = Inr ch'" "descend d' k = Inr ch'"
      by blast
    have "resolve ch' qs = resolve ch qs" using "1.IH" [OF True s(2) pw] .
    then show ?thesis using s True by simp
  next
    case False
    with "1.prems" have n: "py_int k = None" "py_int q = None" by simp_all
    from dict_set_keys_head [OF "1.prems"(1)] obtain x where "assign d k x = Inr d'" by blast
    then have "setitem d (KStr k) x = Inr d'" by (simp add: assign_setitem seg_key_def n)
    then have "getitem d' (KStr q) = getitem d (KStr q)"
      using False by (intro setitem_getitem_other) auto
    then show ?thesis by (simp add: descend_getitem seg_key_def n)
  qed
qed simp_all

lemma append_at_frame:
  "append_at d ks item = Inr d' \<Longrightarrow> key_parts_ways ks qs \<Longrightarrow> resolve d' qs = resolve d qs"
proof (induction ks qs arbitrary: d d' rule: key_parts_ways.induct)
  case (1 k ks q qs)
  from "1.prems"(1) obtain ch ch' where
    s: "getitem d k = Inr ch" "append_at ch ks item = Inr ch'" "setitem d k ch' = Inr d'"
    by (auto split: sum.splits)
  show ?case
  proof (cases "k = seg_key q")
    case True
    with "1.prems" have pw: "key_parts_ways ks qs" by simp
    have "resolve ch' qs = resolve ch qs" using "1.IH" [OF True s(2) pw] .
    moreover have "descend d' q = Inr ch'" "descend d q = Inr ch"
      using s True by (simp_all add: descend_getitem setitem_getitem)
    ultimately show ?thesis by simp
  next
    case False
    with "1.prems" obtain a where k: "k = KStr a" and n: "py_int q = None"
      by (cases k) auto
    have "getitem d' (KStr q) = getitem d (KStr q)"
      using s(3) False unfolding k by (intro setitem_getitem_other) (auto simp: seg_key_def n)
    then show ?thesis by (simp add: descend_getitem seg_key_def n)
  qed
qed simp_all

lemma dict_set_all_frame:
  "dict_set_all d patches = Inr d' \<Longrightarrow>
   (\<forall>(path, v)\<in>set patches. parts_ways (py_split (CHR ''.'') path) qs) \<Longrightarrow>
   resolve d' qs = resolve d qs"
proof (induction patches arbitrary: d)
  case Nil
  then show ?case by simp
next
  case (Cons p patches)
  obtain path v where p: "p = (path, v)" by (cases p)
  from Cons.prems(1) obtain d1 where
    s: "dict_set d path v = Inr d1" "dict_set_all d1 patches = Inr d'"
    unfolding p by (auto split: sum.splits)
  have "resolve d1 qs = resolve d qs"
    using s(1) Cons.prems(2) unfolding p dict_set_def by (intro dict_set_keys_frame) auto
  moreover have "resolve d' qs = resolve d1 qs"
    using Cons.IH [OF s(2)] Cons.prems(2) by simp
  ultimately show ?case by simp
qed

lemma dict_set_all_append:
  "dict_set_all d (xs @ ys) =
     (case dict_set_all d xs of Inl e \<Rightarrow> Inl e | Inr d' \<Rightarrow> dict_set_all d' ys)"
  by (induction xs arbitrary: d) (auto split: sum.splits)

lemma env_path_split: "py_split (CHR ''.'') ''spec.template.spec.containers.0.env'' = env_path"
  by (simp add: env_path_def)

lemma env_path_frames:
  "parts_ways (py_split (CHR ''.'') ''spec.template.spec.containers.0.envFrom.0.secretRef.name'') env_path"
  "parts_ways (py_split (CHR ''.'') ''spec.template.spec.containers.0.image'') env_path"
  "parts_ways (py_split (CHR ''.'') ''spec.template.spec.volumes.0.configMap.name'') env_path"
  "parts_ways (py_split (CHR ''.'') ''spec.template.spec.imagePullSecrets.0.name'') env_path"
  "parts_ways (py_split (CHR ''.'') ''spec.template.spec.nodeName'') env_path"
  "key_parts_ways [KStr ''spec'', KStr ''template'', KStr ''spec'', KStr ''volumes''] env_path"
  "key_parts_ways [KStr ''spec'', KStr ''template'', KStr ''spec'', KStr ''containers'', KInt 0,
     KStr ''volumeMounts''] env_path"
  by (simp_all add: env_path_def seg_key_def py_int_eval)

lemma job_patches_env:
  "\<exists>before after.
     job_patches cfg req h job_id
       = before @ (''spec.template.spec.containers.0.env'', YList (job_envs cfg req h)) # after
     \<and> (\<forall>(path, v)\<in>set after. parts_ways (py_split (CHR ''.'') path) env_path)"
proof -
  let ?before = "[(''metadata.name'', YStr (job_name cfg job_id)),
      (''metadata.labels.et/project-id'', YStr (project_id req)),
      (''metadata.labels.et/data-hash'', YStr h)]"
  let ?after = "[(''spec.template.spec.containers.0.envFrom.0.secretRef.name'',
         YStr (KUBE_S3_SECRET_NAME cfg)),
      (''spec.template.spec.containers.0.image'', YStr (image req)),
      (''spec.template.spec.volumes.0.configMap.name'',
         YStr (KUBE_DEFAULT_NAME_PREFIX cfg @ ''-cm-'' @ job_id)),
      (''spec.template.spec.imagePullSecrets.0.name'', YStr (KUBE_REGCRED_SECRET_NAME cfg))]
     @ (case node req of
          None \<Rightarrow> []
        | Some n \<Rightarrow> [(''spec.template.spec.nodeName'', YStr n)])"
  have "job_patches cfg req h job_id
       = ?before @ (''spec.template.spec.containers.0.env'', YList (job_envs cfg req h)) # ?after"
    by (simp add: job_patches_def)
  moreover have "\<forall>(path, v)\<in>set ?after. parts_ways (py_split (CHR ''.'') path) env_path"
    using env_path_frames by (auto split: option.splits)
  ultimately show ?thesis by blast
qed

lemma dict_set_all_job_patches_env:
  assumes "dict_set_all tpl (job_patches cfg req h job_id) = Inr job"
  shows "resolve job env_path = Inr (YList (job_envs cfg req h))"
proof -
  from job_patches_env [of cfg req h job_id] obtain before after where
    jp: "job_patches cfg req h job_id
       = before @ (''spec.template.spec.containers.0.env'', YList (job_envs cfg req h)) # after"
    and fr: "\<forall>(path, v)\<in>set after. parts_ways (py_split (CHR ''.'') path) env_path"
    by blast
  from assms obtain d1 d2 where
    s: "dict_set d1 ''spec.template.spec.containers.0.env'' (YList (job_envs cfg req h)) = Inr d2"
       "dict_set_all d2 after = Inr job"
    unfolding jp by (auto simp: dict_set_all_append split: sum.splits)
  from s(1) have "resolve d2 env_path = Inr (YList (job_envs cfg req h))"
    unfolding dict_set_def env_path_split by (rule dict_set_keys_resolve)
  moreover have "resolve job env_path = resolve d2 env_path"
    using dict_set_all_frame [OF s(2) fr] .
  ultimately show ?thesis by simp
qed

lemma build_job_env:
  assumes "build_job cfg tpl req h job_id = Inr job"
  shows "resolve job env_path = Inr (YList (job_envs cfg req h))"
proof -
  from assms obtain j0 where j0: "dict_set_all tpl (job_patches cfg req h job_id) = Inr j0"
    by (auto simp: build_job_def split: sum.splits)
  have r0: "resolve j0 env_path = Inr (YList (job_envs cfg req h))"
    using j0 by (rule dict_set_all_job_patches_env)
  show ?thesis
  proof (cases "truthy_str (LOCAL_VOLUME_PATH cfg) \<and> truthy_str (LOCAL_VOLUME_PVC_NAME cfg)")
    case False
    with assms j0 have "job = j0" by (auto simp: build_job_def)
    with r0 show ?thesis by simp
  next
    case True
    with assms j0 obtain j1 where
      a: "append_at j0 [KStr ''spec'', KStr ''template'', KStr ''spec'', KStr ''volumes'']
            (YDict [(KStr ''name'', YStr ''train-data''),
                    (KStr ''persistentVolumeClaim'',
                       YDict [(KStr ''claimName'', opt_str (LOCAL_VOLUME_PVC_NAME cfg))])]) = Inr j1"
         "append_at j1
            [KStr ''spec'', KStr ''template'', KStr ''spec'', KStr ''containers'', KInt 0,
             KStr ''volumeMounts'']
            (YDict [(KStr ''name'', YStr ''train-data''),
                    (KStr ''mountPath'', opt_str (LOCAL_VOLUME_PATH cfg))]) = Inr job"
      by (auto simp: build_job_def split: sum.splits)
    have "resolve j1 env_path = resolve j0 env_path"
      using append_at_frame [OF a(1) env_path_frames(6)] .
    moreover have "resolve job env_path = resolve j1 env_path"
      using append_at_frame [OF a(2) env_path_frames(7)] .
    ultimately show ?thesis using r0 by simp
  qed
qed







section \<open>Properties of cancellation\<close>

lemma status_training_cluster:
  "status cfg c job_id = Inr training \<Longrightarrow>
     read_fault c = None \<and> (\<exists>job. jobs c (job_name cfg job_id) = Some job)"
  by (auto simp: status_def get_job_def read_namespaced_job_def Let_def
      split: option.splits if_splits sum.splits py_error.splits)

lemma status_absent:
  "jobs c (job_name cfg job_id) = None \<Longrightarrow> read_fault c = None \<Longrightarrow>
     status cfg c job_id = Inr none"
  by (simp add: status_def get_job_def read_namespaced_job_def)

lemma cancel_not_training:
  "status cfg c job_id = Inr st \<Longrightarrow> st \<noteq> training \<Longrightarrow> cancel cfg c job_id = (Inr False, c)"
  by (simp add: cancel_def)

lemma cancel_training:
  assumes "status cfg c job_id = Inr training"
  shows "cancel cfg c job_id =
     (let c' = c\<lparr>delete_requests := delete_requests c @ [(job_name cfg job_id, ''Background'')]\<rparr> in
      case delete_fault c of
        None \<Rightarrow> (Inr True, c'\<lparr>jobs := (jobs c)(job_name cfg job_id := None)\<rparr>)
      | Some s \<Rightarrow> (if s = 404 then Inr False else Inl (ApiException s), c'))"
proof -
  from status_training_cluster [OF assms] obtain job where
    "jobs c (job_name cfg job_id) = Some job" by blast
  then show ?thesis using assms
    by (simp add: cancel_def delete_namespaced_job_def Let_def split: option.splits)
qed

text \<open>
  Claim C9. \<open>cancel\<close> returns \<open>False\<close> and leaves the orchestrator as it was, with no
  delete sent, whenever the status is not \<open>training\<close>. When the status is \<open>training\<close> it
  sends one delete with propagation policy \<open>Background\<close>; it returns \<open>True\<close> when the
  delete succeeds, \<open>False\<close> when the orchestrator answers 404, and raises any other
  failure. After a delete that succeeded the Job is gone, so a second \<open>cancel\<close> returns
  \<open>False\<close>, as does any \<open>cancel\<close> while the Job is absent.
\<close>

theorem cancel_contract:
  "(\<forall>st. status cfg c job_id = Inr st \<and> st \<noteq> training \<longrightarrow> cancel cfg c job_id = (Inr False, c))
   \<and> (status cfg c job_id = Inr training \<longrightarrow>
        delete_requests (snd (cancel cfg c job_id))
          = delete_requests c @ [(job_name cfg job_id, ''Background'')]
        \<and> (delete_fault c = None \<longrightarrow>
             fst (cancel cfg c job_id) = Inr True
             \<and> jobs (snd (cancel cfg c job_id)) (job_name cfg job_id) = None
             \<and> fst (cancel cfg (snd (cancel cfg c job_id)) job_id) = Inr False)
        \<and> (delete_fault c = Some 404 \<longrightarrow> fst (cancel cfg c job_id) = Inr False)
        \<and> (\<forall>s. delete_fault c = Some s \<and> s \<noteq> 404 \<longrightarrow>
              fst (cancel cfg c job_id) = Inl (ApiException s)))
   \<and> (\<forall>c2 :: cluster. jobs c2 (job_name cfg job_id) = None \<and> read_fault c2 = None \<longrightarrow>
         cancel cfg c2 job_id = (Inr False, c2))"
proof (intro conjI allI impI)
  fix st assume "status cfg c job_id = Inr st \<and> st \<noteq> training"
  then show "cancel cfg c job_id = (Inr False, c)" by (simp add: cancel_not_training)
next
  assume t: "status cfg c job_id = Inr training"
  show "delete_requests (snd (cancel cfg c job_id))
          = delete_requests c @ [(job_name cfg job_id, ''Background'')]"
    by (simp add: cancel_training [OF t] Let_def split: option.splits)
next
  assume t: "status cfg c job_id = Inr training" and d: "delete_fault c = None"
  show "fst (cancel cfg c job_id) = Inr True"
    by (simp add: cancel_training [OF t] d Let_def)
next
  assume t: "status cfg c job_id = Inr training" and d: "delete_fault c = None"
  show "jobs (snd (cancel cfg c job_id)) (job_name cfg job_id) = None"
    by (simp add: cancel_training [OF t] d Let_def)
next
  assume t: "status cfg c job_id = Inr training" and d: "delete_fault c = None"
  let ?c' = "snd (cancel cfg c job_id)"
  have "jobs ?c' (job_name cfg job_id) = None"
    by (simp add: cancel_training [OF t] d Let_def)
  moreover have "read_fault ?c' = None"
    using status_training_cluster [OF t] by (simp add: cancel_training [OF t] d Let_def)
  ultimately have "status cfg ?c' job_id = Inr none" by (rule status_absent)
  then show "fst (cancel cfg ?c' job_id) = Inr False" by (simp add: cancel_not_training)
next
  assume t: "status cfg c job_id = Inr training" and d: "delete_fault c = Some 404"
  show "fst (cancel cfg c job_id) = Inr False"
    by (simp add: cancel_training [OF t] d Let_def)
next
  fix s assume t: "status cfg c job_id = Inr training" and d: "delete_fault c = Some s \<and> s \<noteq> 404"
  show "fst (cancel cfg c job_id) = Inl (ApiException s)"
    using d by (simp add: cancel_training [OF t] Let_def)
next
  fix c2 :: cluster assume "jobs c2 (job_name cfg job_id) = None \<and> read_fault c2 = None"
  then have "status cfg c2 job_id = Inr none" by (simp add: status_absent)
  then show "cancel cfg c2 job_id = (Inr False, c2)" by (simp add: cancel_not_training)
qed

theorem cancel_contract_witness:
  "status default_config running_cluster ''j1'' = Inr training
   \<and> delete_fault running_cluster = None
   \<and> fst (cancel default_config running_cluster ''j1'') = Inr True
   \<and> delete_requests (snd (cancel default_config running_cluster ''j1''))
       = [(''et-job-j1'', ''Background'')]
   \<and> fst (cancel default_config (snd (cancel default_config running_cluster ''j1'')) ''j1'')
       = Inr False"
proof -
  have t: "status default_config running_cluster ''j1'' = Inr training"
    by (simp add: status_def get_job_def read_namespaced_job_def job_name_def default_config_def
        running_cluster_def truthy_int_def)
  have d: "delete_fault running_cluster = None" by (simp add: running_cluster_def)
  have n: "job_name default_config ''j1'' = ''et-job-j1''"
    by (simp add: job_name_def default_config_def)
  show ?thesis
    using cancel_contract [of default_config running_cluster "''j1''"] t d
    by (simp add: n running_cluster_def)
qed

section \<open>Properties of submission\<close>








lemma train_submitted_job:
  assumes "snd (train cfg w req) = Stored p t # Submitted job # rest"
  shows "canonical_training_data w (training_data req) = Inr t
     \<and> p = s3_model_dir cfg (project_id req) (md5_hexdigest w t) @ ''/train_data.yml''
     \<and> build_job cfg (job_template w) req (md5_hexdigest w t) (uuid4 w) = Inr job"
  using assms by (auto simp: train_def Let_def split: option.splits sum.splits list.splits)

lemma train_submits_job:
  assumes "canonical_training_data w (training_data req) = Inr canonical"
    and "upload_train_data cfg w
           (s3_model_dir cfg (project_id req) (md5_hexdigest w canonical) @ ''/train_data.yml'')
           canonical = None"
    and "build_job cfg (job_template w) req (md5_hexdigest w canonical) (uuid4 w) = Inr job"
  shows "\<exists>rest. snd (train cfg w req) =
     Stored (s3_model_dir cfg (project_id req) (md5_hexdigest w canonical) @ ''/train_data.yml'')
       canonical # Submitted job # rest"
  using assms by (auto simp: train_def Let_def split: option.splits sum.splits list.splits)








text \<open>
  Claim C10. In \<^verbatim>\<open>train\<close>, the environment of the Job has an entry named
  \<open>IS_RASA_FOR_BOTFRONT\<close> exactly when the request's flag or the process-wide constant is
  set, and the value of every such entry is the process-wide constant, never the flag.
  This environment is what the Job holds at \<open>spec.template.spec.containers.0.env\<close> when
  \<^verbatim>\<open>train\<close> hands it to the orchestrator, which it does once the training data is parsed
  and stored and the template is patched. So for a request with the flag set while the
  constant is unset, the Job that \<^verbatim>\<open>train\<close> submits has the entry, and its value is
  null.
\<close>

theorem botfront_env_entry:
  "(\<forall>e\<in>set (job_envs cfg req h).
       dict_get e ''name'' = Some (YStr ''IS_RASA_FOR_BOTFRONT'')
       \<longrightarrow> dict_get e ''value'' = Some (opt_str (IS_RASA_FOR_BOTFRONT cfg)))
   \<and> ((is_rasa_for_botfront req \<or> truthy_str (IS_RASA_FOR_BOTFRONT cfg))
        \<longleftrightarrow> env_entry ''IS_RASA_FOR_BOTFRONT'' (IS_RASA_FOR_BOTFRONT cfg) \<in> set (job_envs cfg req h))
   \<and> (is_rasa_for_botfront req \<and> IS_RASA_FOR_BOTFRONT cfg = None
        \<longrightarrow> YDict [(KStr ''name'', YStr ''IS_RASA_FOR_BOTFRONT''), (KStr ''value'', YNull)]
              \<in> set (job_envs cfg req h))
   \<and> (\<forall>tpl job_id job. build_job cfg tpl req h job_id = Inr job
        \<longrightarrow> resolve job env_path = Inr (YList (job_envs cfg req h)))
   \<and> (\<forall>canonical job.
         canonical_training_data w (training_data req) = Inr canonical
         \<and> upload_train_data cfg w
             (s3_model_dir cfg (project_id req) (md5_hexdigest w canonical) @ ''/train_data.yml'')
             canonical = None
         \<and> build_job cfg (job_template w) req (md5_hexdigest w canonical) (uuid4 w) = Inr job
         \<longrightarrow> (\<exists>rest. snd (train cfg w req) =
                Stored (s3_model_dir cfg (project_id req) (md5_hexdigest w canonical)
                          @ ''/train_data.yml'') canonical
                  # Submitted job # rest))
   \<and> (\<forall>p t job rest. snd (train cfg w req) = Stored p t # Submitted job # rest \<longrightarrow>
         (\<exists>envs. resolve job env_path = Inr (YList envs)
            \<and> envs = job_envs cfg req (md5_hexdigest w t)
            \<and> (\<forall>e\<in>set envs. dict_get e ''name'' = Some (YStr ''IS_RASA_FOR_BOTFRONT'')
                  \<longrightarrow> dict_get e ''value'' = Some (opt_str (IS_RASA_FOR_BOTFRONT cfg)))
            \<and> ((is_rasa_for_botfront req \<or> truthy_str (IS_RASA_FOR_BOTFRONT cfg))
                 \<longleftrightarrow> env_entry ''IS_RASA_FOR_BOTFRONT'' (IS_RASA_FOR_BOTFRONT cfg) \<in> set envs)
            \<and> (is_rasa_for_botfront req \<and> IS_RASA_FOR_BOTFRONT cfg = None
                 \<longrightarrow> YDict [(KStr ''name'', YStr ''IS_RASA_FOR_BOTFRONT''), (KStr ''value'', YNull)]
                       \<in> set envs)))"
proof -
  have e1: "\<forall>e\<in>set (job_envs cfg req h).
       dict_get e ''name'' = Some (YStr ''IS_RASA_FOR_BOTFRONT'')
       \<longrightarrow> dict_get e ''value'' = Some (opt_str (IS_RASA_FOR_BOTFRONT cfg))" for h
    by (auto simp: job_envs_def env_entry_def dict_get_def opt_str_def)
  have e2: "(is_rasa_for_botfront req \<or> truthy_str (IS_RASA_FOR_BOTFRONT cfg))
        \<longleftrightarrow> env_entry ''IS_RASA_FOR_BOTFRONT'' (IS_RASA_FOR_BOTFRONT cfg) \<in> set (job_envs cfg req h)"
    for h
    by (auto simp: job_envs_def env_entry_def)
  have e3: "is_rasa_for_botfront req \<and> IS_RASA_FOR_BOTFRONT cfg = None
        \<longrightarrow> YDict [(KStr ''name'', YStr ''IS_RASA_FOR_BOTFRONT''), (KStr ''value'', YNull)]
              \<in> set (job_envs cfg req h)" for h
    by (auto simp: job_envs_def env_entry_def opt_str_def)
  have e4: "\<forall>tpl job_id job. build_job cfg tpl req h job_id = Inr job
        \<longrightarrow> resolve job env_path = Inr (YList (job_envs cfg req h))"
    using build_job_env by blast
  have e5: "\<forall>canonical job.
         canonical_training_data w (training_data req) = Inr canonical
         \<and> upload_train_data cfg w
             (s3_model_dir cfg (project_id req) (md5_hexdigest w canonical) @ ''/train_data.yml'')
             canonical = None
         \<and> build_job cfg (job_template w) req (md5_hexdigest w canonical) (uuid4 w) = Inr job
         \<longrightarrow> (\<exists>rest. snd (train cfg w req) =
                Stored (s3_model_dir cfg (project_id req) (md5_hexdigest w canonical)
                          @ ''/train_data.yml'') canonical
                  # Submitted job # rest)"
    using train_submits_job by blast
  have e6: "\<exists>envs. resolve job env_path = Inr (YList envs)
            \<and> envs = job_envs cfg req (md5_hexdigest w t)
            \<and> (\<forall>e\<in>set envs. dict_get e ''name'' = Some (YStr ''IS_RASA_FOR_BOTFRONT'')
                  \<longrightarrow> dict_get e ''value'' = Some (opt_str (IS_RASA_FOR_BOTFRONT cfg)))
            \<and> ((is_rasa_for_botfront req \<or> truthy_str (IS_RASA_FOR_BOTFRONT cfg))
                 \<longleftrightarrow> env_entry ''IS_RASA_FOR_BOTFRONT'' (IS_RASA_FOR_BOTFRONT cfg) \<in> set envs)
            \<and> (is_rasa_for_botfront req \<and> IS_RASA_FOR_BOTFRONT cfg = None
                 \<longrightarrow> YDict [(KStr ''name'', YStr ''IS_RASA_FOR_BOTFRONT''), (KStr ''value'', YNull)]
                       \<in> set envs)"
    if s: "snd (train cfg w req) = Stored p t # Submitted job # rest" for p t job rest
  proof -
    from train_submitted_job [OF s]
    have "build_job cfg (job_template w) req (md5_hexdigest w t) (uuid4 w) = Inr job" by simp
    then have "resolve job env_path = Inr (YList (job_envs cfg req (md5_hexdigest w t)))"
      by (rule build_job_env)
    then show ?thesis
      using e1 [of "md5_hexdigest w t"] e2 [of "md5_hexdigest w t"] e3 [of "md5_hexdigest w t"]
      by blast
  qed
  show ?thesis
    apply (intro conjI)
    subgoal by (rule e1)
    subgoal by (rule e2)
    subgoal by (rule e3)
    subgoal by (rule e4)
    subgoal by (rule e5)
    subgoal using e6 by blast
    done
qed

theorem botfront_env_entry_witness:
  "is_rasa_for_botfront example_request \<and> IS_RASA_FOR_BOTFRONT default_config = None
   \<and> (\<exists>job rest.
         snd (train default_config example_world example_request) =
           Stored ''models/p1/3bcde6d55b49cfbe526f991dbc7d53d9/train_data.yml''
             (text_lines [''a: 1'', ''b: 2'']) # Submitted job # rest
         \<and> resolve job env_path =
             Inr (YList
               [YDict [(KStr ''name'', YStr ''S3_MODEL_DIR''),
                       (KStr ''value'', YStr ''models/p1/3bcde6d55b49cfbe526f991dbc7d53d9'')],
                YDict [(KStr ''name'', YStr ''S3_BUCKET_NAME''), (KStr ''value'', YNull)],
                YDict [(KStr ''name'', YStr ''S3_ENDPOINT''), (KStr ''value'', YNull)],
                YDict [(KStr ''name'', YStr ''S3_REGION''), (KStr ''value'', YNull)],
                YDict [(KStr ''name'', YStr ''S3_CACHE_PATH''),
                       (KStr ''value'', YStr ''models-cache/p1/cache.tar.gz'')],
                YDict [(KStr ''name'', YStr ''IS_RASA_FOR_BOTFRONT''), (KStr ''value'', YNull)]]))"
proof -
  let ?t = "text_lines [''a: 1'', ''b: 2'']"
  let ?h = "''3bcde6d55b49cfbe526f991dbc7d53d9''"
  have fl: "is_rasa_for_botfront example_request \<and> IS_RASA_FOR_BOTFRONT default_config = None"
    by (simp add: example_request_def default_config_def)
  have c: "canonical_training_data example_world (training_data example_request) = Inr ?t"
    by code_simp
  have h: "md5_hexdigest example_world ?t = ?h" by code_simp
  have p: "s3_model_dir default_config (project_id example_request) ?h @ ''/train_data.yml''
      = ''models/p1/3bcde6d55b49cfbe526f991dbc7d53d9/train_data.yml''"
    by (simp add: s3_model_dir_def default_config_def example_request_def)
  have u: "upload_train_data default_config example_world
      ''models/p1/3bcde6d55b49cfbe526f991dbc7d53d9/train_data.yml'' ?t = None"
    by (simp add: upload_train_data_def default_config_def example_world_def)
  have "\<not> isl (build_job default_config (job_template example_world) example_request ?h
               (uuid4 example_world))"
    by code_simp
  then obtain job where
    j: "build_job default_config (job_template example_world) example_request ?h
          (uuid4 example_world) = Inr job"
    by (cases "build_job default_config (job_template example_world) example_request ?h
          (uuid4 example_world)") auto
  note t = botfront_env_entry [of default_config example_request ?h example_world]
  from t [THEN conjunct2, THEN conjunct2, THEN conjunct2, THEN conjunct2, THEN conjunct1,
      rule_format, of ?t job] c u j
  obtain rest where
    s: "snd (train default_config example_world example_request) =
           Stored ''models/p1/3bcde6d55b49cfbe526f991dbc7d53d9/train_data.yml'' ?t
             # Submitted job # rest"
    unfolding h p by blast
  from t [THEN conjunct2, THEN conjunct2, THEN conjunct2, THEN conjunct2, THEN conjunct2,
      rule_format, OF s]
  have "resolve job env_path = Inr (YList (job_envs default_config example_request ?h))"
    unfolding h by blast
  moreover have "job_envs default_config example_request ?h =
               [YDict [(KStr ''name'', YStr ''S3_MODEL_DIR''),
                       (KStr ''value'', YStr ''models/p1/3bcde6d55b49cfbe526f991dbc7d53d9'')],
                YDict [(KStr ''name'', YStr ''S3_BUCKET_NAME''), (KStr ''value'', YNull)],
                YDict [(KStr ''name'', YStr ''S3_ENDPOINT''), (KStr ''value'', YNull)],
                YDict [(KStr ''name'', YStr ''S3_REGION''), (KStr ''value'', YNull)],
                YDict [(KStr ''name'', YStr ''S3_CACHE_PATH''),
                       (KStr ''value'', YStr ''models-cache/p1/cache.tar.gz'')],
                YDict [(KStr ''name'', YStr ''IS_RASA_FOR_BOTFRONT''), (KStr ''value'', YNull)]]"
    by code_simp
  ultimately show ?thesis using fl s by auto
qed

end
